theory Spec2Isabelle
  imports Main "HOL-Library.AList"
begin

section \<open>Python values, exceptions and library calls\<close>

text \<open>
  The service passes untyped dictionaries around (\<^verbatim>\<open>Dict[str, Any]\<close>): the job data, the
  dumped clinical summary and the FHIR bundle. They are embedded in one datatype of Python
  values; a dictionary is an association list in insertion order.
\<close>

datatype pyval =
    PNone
  | PInt int
  | PStr string
  | PDatetime nat
  | PList "pyval list"
  | PDict "(string \<times> pyval) list"

text \<open>Python truthiness, as used by \<^verbatim>\<open>if x:\<close> and \<^verbatim>\<open>x or y\<close>.\<close>

fun truthy :: "pyval \<Rightarrow> bool" where
  "truthy PNone = False"
| "truthy (PInt n) = (n \<noteq> 0)"
| "truthy (PStr s) = (s \<noteq> [])"
| "truthy (PDatetime t) = True"
| "truthy (PList xs) = (xs \<noteq> [])"
| "truthy (PDict kvs) = (kvs \<noteq> [])"

text \<open>
  An exception is a value. \<open>ValueError\<close> is what the code raises itself; \<open>LibError\<close> stands
  for any exception that comes out of a library or collaborator call. \<open>str_exc\<close> is
  Python's \<^verbatim>\<open>str(e)\<close>.
\<close>

datatype exc = ValueError string | LibError string

fun str_exc :: "exc \<Rightarrow> string" where
  "str_exc (ValueError m) = m"
| "str_exc (LibError m) = m"

subsection \<open>Numbers as text\<close>

text \<open>Python's \<^verbatim>\<open>str\<close> of an integer: decimal digits, with a minus sign below zero.\<close>

definition digit_char :: "nat \<Rightarrow> char" where
  "digit_char d = char_of (48 + d)"

function str_nat :: "nat \<Rightarrow> string" where
  "str_nat n = (if n < 10 then [digit_char n] else str_nat (n div 10) @ [digit_char (n mod 10)])"
  by pat_completeness auto
termination
  by (relation "measure id") auto

definition str_int :: "int \<Rightarrow> string" where
  "str_int i = (if i < 0 then CHR ''-'' # str_nat (nat (- i)) else str_nat (nat i))"

subsection \<open>The data model of \<^verbatim>\<open>app/models.py\<close>\<close>

datatype job_status = PENDING | PROCESSING | COMPLETED | FAILED

text \<open>\<^verbatim>\<open>JobStatus(value)\<close>: the enum member of a string, or \<^verbatim>\<open>ValueError\<close>.\<close>

definition JobStatus :: "string \<Rightarrow> exc + job_status" where
  "JobStatus v =
     (if v = ''pending'' then Inr PENDING
      else if v = ''processing'' then Inr PROCESSING
      else if v = ''completed'' then Inr COMPLETED
      else if v = ''failed'' then Inr FAILED
      else Inl (ValueError ([CHR 0x27] @ v @ [CHR 0x27] @ '' is not a valid JobStatus'')))"

record symptom =
  name :: string
  duration :: "string option"
  severity :: "string option"
  description :: "string option"

record clinical_summary =
  patient_age :: "int option"
  patient_gender :: "string option"
  symptoms :: "symptom list"
  risk_factors :: "string list"
  relevant_conditions :: "string list"
  narrative_summary :: string
  created_at :: nat

record job_response =
  jr_job_id :: string
  jr_status :: job_status
  jr_message :: string

record result_response =
  rr_job_id :: string
  rr_status :: job_status
  rr_clinical_summary :: "clinical_summary option"
  rr_error :: "string option"
  rr_created_at :: "nat option"
  rr_completed_at :: "nat option"

text \<open>\<^verbatim>\<open>model_dump()\<close> of a summary: a dictionary with the seven fields, in declaration order.\<close>

definition opt_str :: "string option \<Rightarrow> pyval" where
  "opt_str x = (case x of None \<Rightarrow> PNone | Some s \<Rightarrow> PStr s)"

definition symptom_dump :: "symptom \<Rightarrow> pyval" where
  "symptom_dump s =
     PDict [(''name'', PStr (name s)), (''duration'', opt_str (duration s)),
            (''severity'', opt_str (severity s)), (''description'', opt_str (description s))]"

definition model_dump :: "clinical_summary \<Rightarrow> pyval" where
  "model_dump cs =
     PDict [(''patient_age'', (case patient_age cs of None \<Rightarrow> PNone | Some a \<Rightarrow> PInt a)),
            (''patient_gender'', opt_str (patient_gender cs)),
            (''symptoms'', PList (map symptom_dump (symptoms cs))),
            (''risk_factors'', PList (map PStr (risk_factors cs))),
            (''relevant_conditions'', PList (map PStr (relevant_conditions cs))),
            (''narrative_summary'', PStr (narrative_summary cs)),
            (''created_at'', PDatetime (created_at cs))]"

subsection \<open>Library and collaborator calls\<close>

text \<open>
  What the code calls but does not define is a parameter: the JSON codec, the formatting of
  time stamps and tracebacks, pydantic's parsing, and the agent (model loading, Whisper
  transcription, LLM inference). Every call that can raise returns a sum; the agent's calls
  also return the seconds they took, since a job may take minutes.
\<close>

record env =
  isoformat :: "nat \<Rightarrow> string"
  json_dumps :: "pyval \<Rightarrow> exc + string"
  json_loads :: "string \<Rightarrow> exc + pyval"
  format_exc :: "exc \<Rightarrow> string"
  parse_datetime :: "string \<Rightarrow> exc + nat"
  parse_summary :: "pyval \<Rightarrow> exc + clinical_summary"
  load_agent :: "nat \<times> exc option"
  transcribe_audio :: "string \<Rightarrow> nat \<times> (exc + string)"
  process_clinical_text :: "string \<Rightarrow> nat \<times> (exc + clinical_summary)"

section \<open>The Redis store\<close>

text \<open>
  The store holds hashes (the job records, under \<^verbatim>\<open>job:<id>\<close>) and strings (the results,
  under \<^verbatim>\<open>result:<id>\<close>), an optional expiry time per key, and the current time in seconds.
  A key whose expiry time has been reached is absent for every command. The two key families
  never share a key, so a hash command never meets a string value. The store is taken to be
  reachable: connection errors are not modelled.
\<close>

record redis =
  hashes :: "string \<rightharpoonup> (string \<times> string) list"
  strs :: "string \<rightharpoonup> string"
  expires :: "string \<rightharpoonup> nat"
  clock :: nat

definition alive :: "redis \<Rightarrow> string \<Rightarrow> bool" where
  "alive r k = (case expires r k of None \<Rightarrow> True | Some t \<Rightarrow> clock r < t)"

definition hash_at :: "redis \<Rightarrow> string \<Rightarrow> (string \<times> string) list option" where
  "hash_at r k = (if alive r k then hashes r k else None)"

definition str_at :: "redis \<Rightarrow> string \<Rightarrow> string option" where
  "str_at r k = (if alive r k then strs r k else None)"

definition r_exists :: "string \<Rightarrow> redis \<Rightarrow> bool" where
  "r_exists k r = (hash_at r k \<noteq> None \<or> str_at r k \<noteq> None)"

definition r_hgetall :: "string \<Rightarrow> redis \<Rightarrow> (string \<times> string) list" where
  "r_hgetall k r = (case hash_at r k of None \<Rightarrow> [] | Some h \<Rightarrow> h)"

definition r_get :: "string \<Rightarrow> redis \<Rightarrow> string option" where
  "r_get k r = str_at r k"

text \<open>
  The expiry time of a key that is there, if it has one. \<open>None\<close> is the answer both for a
  key that is missing and for a key that never expires; \<open>r_ttl\<close> below tells them apart.
\<close>

definition r_expiry :: "string \<Rightarrow> redis \<Rightarrow> nat option" where
  "r_expiry k r = (if r_exists k r then expires r k else None)"

text \<open>
  What Redis answers to \<^verbatim>\<open>TTL\<close>, with the expiry as a time rather than a remainder: the key
  is missing, or it is there and never expires, or it is there until the given time.
\<close>

datatype ttl = Missing | Persistent | ExpiresAt nat

definition r_ttl :: "string \<Rightarrow> redis \<Rightarrow> ttl" where
  "r_ttl k r =
     (if \<not> r_exists k r then Missing
      else (case expires r k of None \<Rightarrow> Persistent | Some t \<Rightarrow> ExpiresAt t))"

text \<open>A write to a key that is absent or expired starts from nothing, with no expiry.\<close>

definition purge :: "string \<Rightarrow> redis \<Rightarrow> redis" where
  "purge k r =
     (if r_exists k r then r
      else r\<lparr>hashes := (hashes r)(k := None), strs := (strs r)(k := None),
             expires := (expires r)(k := None)\<rparr>)"

definition r_hset_mapping :: "string \<Rightarrow> (string \<times> string) list \<Rightarrow> redis \<Rightarrow> redis" where
  "r_hset_mapping k kvs r =
     (let r' = purge k r
      in r'\<lparr>hashes := (hashes r')(k \<mapsto> AList.updates (map fst kvs) (map snd kvs) (r_hgetall k r))\<rparr>)"

definition r_hset :: "string \<Rightarrow> string \<Rightarrow> string \<Rightarrow> redis \<Rightarrow> redis" where
  "r_hset k f v r = r_hset_mapping k [(f, v)] r"

definition r_expire :: "string \<Rightarrow> nat \<Rightarrow> redis \<Rightarrow> redis" where
  "r_expire k ttl r = (if r_exists k r then r\<lparr>expires := (expires r)(k \<mapsto> clock r + ttl)\<rparr> else r)"

definition r_setex :: "string \<Rightarrow> nat \<Rightarrow> string \<Rightarrow> redis \<Rightarrow> redis" where
  "r_setex k ttl v r =
     r\<lparr>hashes := (hashes r)(k := None), strs := (strs r)(k \<mapsto> v),
       expires := (expires r)(k \<mapsto> clock r + ttl)\<rparr>"

text \<open>
  The world of the service: the store, the RQ queue \<^verbatim>\<open>clinical_jobs\<close> (function name, argument
  and timeout of each enqueued call), the worker's global \<^verbatim>\<open>clinical_agent\<close> (loaded or not),
  and a log of the store as it stood after each write command, newest first. The API and the
  worker are separate processes, so each logged store is one that a reader can observe.
\<close>

record world =
  db :: redis
  rq_jobs :: "(string \<times> string \<times> nat) list"
  agent_loaded :: bool
  history :: "redis list"

definition commit :: "(redis \<Rightarrow> redis) \<Rightarrow> world \<Rightarrow> world" where
  "commit f w = w\<lparr>db := f (db w), history := f (db w) # history w\<rparr>"

definition tick :: "nat \<Rightarrow> world \<Rightarrow> world" where
  "tick d w = w\<lparr>db := (db w)\<lparr>clock := clock (db w) + d\<rparr>\<rparr>"

section \<open>\<^verbatim>\<open>app/queue.py\<close>\<close>

definition job_key :: "string \<Rightarrow> string" where
  "job_key job_id = ''job:'' @ job_id"

definition result_key :: "string \<Rightarrow> string" where
  "result_key job_id = ''result:'' @ job_id"

text \<open>\<^verbatim>\<open>timedelta(hours=24)\<close> in seconds.\<close>

definition hours24 :: nat where
  "hours24 = 86400"

text \<open>
  \<^verbatim>\<open>job_data.get(k) or ""\<close>, as the hash field that \<^verbatim>\<open>hset\<close> stores for it: a falsy value
  gives the empty string, a string is stored as it is, and an integer is stored as its
  decimal text. A truthy list, dictionary or datetime cannot be stored: redis-py refuses it
  with \<^verbatim>\<open>DataError\<close>. \<open>storable\<close> says that none of the three fields that \<open>enqueue_job\<close>
  reads holds such a value; what \<open>get_or_empty\<close> returns for one is not what the code does.
\<close>

definition get_or_empty :: "(string \<times> pyval) list \<Rightarrow> string \<Rightarrow> string" where
  "get_or_empty job_data k =
     (case map_of job_data k of
        Some (PStr s) \<Rightarrow> s
      | Some (PInt n) \<Rightarrow> if n = 0 then '''' else str_int n
      | _ \<Rightarrow> '''')"

definition storable_field :: "(string \<times> pyval) list \<Rightarrow> string \<Rightarrow> bool" where
  "storable_field job_data k =
     (case map_of job_data k of
        Some (PDatetime t) \<Rightarrow> False
      | Some (PList xs) \<Rightarrow> xs = []
      | Some (PDict kvs) \<Rightarrow> kvs = []
      | _ \<Rightarrow> True)"

definition storable :: "(string \<times> pyval) list \<Rightarrow> bool" where
  "storable job_data =
     (storable_field job_data ''text'' \<and> storable_field job_data ''audio_filename''
      \<and> storable_field job_data ''audio_url'')"

text \<open>
  \<open>enqueue_job\<close>. The identifier drawn by \<^verbatim>\<open>uuid.uuid4()\<close> is the argument \<open>uuid\<close>; the time
  is read from the store's clock.
\<close>

definition enqueue_job :: "env \<Rightarrow> string \<Rightarrow> (string \<times> pyval) list \<Rightarrow> world \<Rightarrow> string \<times> world" where
  "enqueue_job env uuid job_data w =
     (let job_id = uuid;
          job_metadata =
            [(''job_id'', job_id),
             (''status'', ''pending''),
             (''created_at'', isoformat env (clock (db w))),
             (''text'', get_or_empty job_data ''text''),
             (''audio_filename'', get_or_empty job_data ''audio_filename''),
             (''audio_url'', get_or_empty job_data ''audio_url'')];
          w1 = commit (r_hset_mapping (job_key job_id) job_metadata) w;
          w2 = commit (r_expire (job_key job_id) hours24) w1;
          w3 = w2\<lparr>rq_jobs := rq_jobs w2 @ [(''app.worker.process_clinical_job'', job_id, 300)]\<rparr>
      in (job_id, w3))"

text \<open>
  \<open>get_job_status\<close> only reads. The result is \<open>Inr None\<close> for Python's \<^verbatim>\<open>None\<close>, the
  dictionary otherwise, or the exception of \<^verbatim>\<open>json.loads\<close>.
\<close>

definition get_job_status :: "env \<Rightarrow> string \<Rightarrow> redis \<Rightarrow> exc + (string \<times> pyval) list option" where
  "get_job_status env job_id r =
     (if \<not> r_exists (job_key job_id) r then Inr None
      else
        let job_data = map (\<lambda>(f, v). (f, PStr v)) (r_hgetall (job_key job_id) r)
        in if map_of job_data ''status'' = Some (PStr ''completed'') then
             (case r_get (result_key job_id) r of
                None \<Rightarrow> Inr (Some job_data)
              | Some result_data \<Rightarrow>
                  if result_data = [] then Inr (Some job_data)
                  else (case json_loads env result_data of
                          Inl e \<Rightarrow> Inl e
                        | Inr v \<Rightarrow> Inr (Some (AList.update ''clinical_summary'' v job_data))))
           else Inr (Some job_data))"

text \<open>
  \<open>update_job_status\<close>: the status is written first, then the result (when truthy), then
  the error (when truthy). \<^verbatim>\<open>json.dumps\<close> is evaluated before \<^verbatim>\<open>setex\<close> is called, so when it
  raises only the status has been written. The world is returned also when the call raises.
\<close>

definition update_job_status ::
  "env \<Rightarrow> string \<Rightarrow> string \<Rightarrow> pyval \<Rightarrow> string option \<Rightarrow> world \<Rightarrow> (exc + unit) \<times> world" where
  "update_job_status env job_id status result error w =
     (let w1 = commit (r_hset (job_key job_id) ''status'' status) w
      in case (if truthy result then
                 (case json_dumps env result of
                    Inl e \<Rightarrow> Inl e
                  | Inr js \<Rightarrow>
                      let w2 = commit (r_setex (result_key job_id) hours24 js) w1
                      in Inr (commit (r_hset (job_key job_id) ''completed_at''
                                        (isoformat env (clock (db w2)))) w2))
               else Inr w1) of
           Inl e \<Rightarrow> (Inl e, w1)
         | Inr w3 \<Rightarrow>
             (case error of
                None \<Rightarrow> (Inr (), w3)
              | Some msg \<Rightarrow>
                  if msg = [] then (Inr (), w3)
                  else
                    let w4 = commit (r_hset (job_key job_id) ''error'' msg) w3
                    in (Inr (), commit (r_hset (job_key job_id) ''completed_at''
                                          (isoformat env (clock (db w4)))) w4)))"

section \<open>\<^verbatim>\<open>app/worker.py\<close>\<close>

text \<open>
  \<open>initialize_agent\<close> loads the agent once: the global \<^verbatim>\<open>clinical_agent\<close> stays set after the
  first success. Loading takes time and can raise (no API key, no model).
\<close>

definition initialize_agent :: "env \<Rightarrow> world \<Rightarrow> (exc + unit) \<times> world" where
  "initialize_agent env w =
     (if agent_loaded w then (Inr (), w)
      else (case load_agent env of
              (d, Some e) \<Rightarrow> (Inl e, tick d w)
            | (d, None) \<Rightarrow> (Inr (), (tick d w)\<lparr>agent_loaded := True\<rparr>)))"

text \<open>
  A field of the job data read for its text: the hash fields are all strings, and \<^verbatim>\<open>None\<close>
  and the empty string are both falsy, so a missing field reads as the empty string.
\<close>

definition text_field :: "(string \<times> pyval) list \<Rightarrow> string \<Rightarrow> string" where
  "text_field job_data k = (case map_of job_data k of Some (PStr s) \<Rightarrow> s | _ \<Rightarrow> '''')"

text \<open>The message of the second \<^verbatim>\<open>ValueError\<close>, in UTF-8.\<close>

definition no_text_message :: string where
  "no_text_message =
     ''No se proporcion'' @ [CHR 0xC3, CHR 0xB3] @ '' texto ni audio v'' @ [CHR 0xC3, CHR 0xA1] @ ''lido''"

text \<open>The body of the \<^verbatim>\<open>try\<close> block of \<open>process_clinical_job\<close>.\<close>

definition process_clinical_job_try :: "env \<Rightarrow> string \<Rightarrow> world \<Rightarrow> (exc + pyval) \<times> world" where
  "process_clinical_job_try env job_id w =
     (case get_job_status env job_id (db w) of
        Inl e \<Rightarrow> (Inl e, w)
      | Inr None \<Rightarrow> (Inl (ValueError (''Trabajo '' @ job_id @ '' no encontrado'')), w)
      | Inr (Some job_data) \<Rightarrow>
          if job_data = [] then (Inl (ValueError (''Trabajo '' @ job_id @ '' no encontrado'')), w)
          else
            (case update_job_status env job_id ''processing'' PNone None w of
               (Inl e, w1) \<Rightarrow> (Inl e, w1)
             | (Inr u, w1) \<Rightarrow>
                 (case initialize_agent env w1 of
                    (Inl e, w2) \<Rightarrow> (Inl e, w2)
                  | (Inr u', w2) \<Rightarrow>
                      let text = text_field job_data ''text'';
                          audio_filename = text_field job_data ''audio_filename'';
                          (transcribed, w3) =
                            (if audio_filename \<noteq> [] \<and> text = [] then
                               (case transcribe_audio env audio_filename of
                                  (d, r) \<Rightarrow> (r, tick d w2))
                             else (Inr text, w2))
                      in (case transcribed of
                            Inl e \<Rightarrow> (Inl e, w3)
                          | Inr text' \<Rightarrow>
                              if text' = [] then (Inl (ValueError no_text_message), w3)
                              else
                                (case process_clinical_text env text' of
                                   (d, Inl e) \<Rightarrow> (Inl e, tick d w3)
                                 | (d, Inr clinical_summary) \<Rightarrow>
                                     let result_dict = model_dump clinical_summary
                                     in (case update_job_status env job_id ''completed''
                                                result_dict None (tick d w3) of
                                           (Inl e, w5) \<Rightarrow> (Inl e, w5)
                                         | (Inr u'', w5) \<Rightarrow> (Inr result_dict, w5)))))))"

text \<open>The message stored by the handler: description of the fault, newline, traceback.\<close>

definition error_message :: "env \<Rightarrow> exc \<Rightarrow> string" where
  "error_message env e = ''Error procesando trabajo: '' @ str_exc e @ [CHR 0x0A] @ format_exc env e"

text \<open>
  \<open>process_clinical_job\<close>: the \<^verbatim>\<open>try\<close> block and its handler, which stores the failure and
  raises the exception again.
\<close>

definition process_clinical_job :: "env \<Rightarrow> string \<Rightarrow> world \<Rightarrow> (exc + pyval) \<times> world" where
  "process_clinical_job env job_id w =
     (case process_clinical_job_try env job_id w of
        (Inr result_dict, w') \<Rightarrow> (Inr result_dict, w')
      | (Inl e, w') \<Rightarrow>
          (case update_job_status env job_id ''failed'' PNone (Some (error_message env e)) w' of
             (Inl e', w'') \<Rightarrow> (Inl e', w'')
           | (Inr u, w'') \<Rightarrow> (Inl e, w'')))"

section \<open>\<^verbatim>\<open>app/main.py\<close>\<close>

datatype http_exc = HTTPException nat string

text \<open>An uploaded file: its name (optional) and its bytes. The object itself is always truthy.\<close>

record upload_file =
  filename :: "string option"
  content :: "nat list"

definition str_truthy :: "string option \<Rightarrow> bool" where
  "str_truthy x = (case x of None \<Rightarrow> False | Some s \<Rightarrow> s \<noteq> [])"

definition submit_job_data :: "string option \<Rightarrow> upload_file option \<Rightarrow> (string \<times> pyval) list" where
  "submit_job_data text audio_file =
     (let job_data = (case text of
                        None \<Rightarrow> []
                      | Some t \<Rightarrow> if t = [] then [] else AList.update ''text'' (PStr t) [])
      in case audio_file of
           None \<Rightarrow> job_data
         | Some f \<Rightarrow>
             AList.update ''audio_size'' (PInt (int (length (content f))))
               (AList.update ''audio_filename'' (opt_str (filename f)) job_data))"

text \<open>
  \<open>submit_job\<close>, with the identifier that \<open>enqueue_job\<close> will draw as the argument \<open>uuid\<close>.
  With a reachable store \<open>enqueue_job\<close> does not raise, so the handler that answers 500
  has no branch here.
\<close>

definition submit_job ::
  "env \<Rightarrow> string \<Rightarrow> string option \<Rightarrow> upload_file option \<Rightarrow> world \<Rightarrow> (http_exc + job_response) \<times> world" where
  "submit_job env uuid text audio_file w =
     (if \<not> str_truthy text \<and> audio_file = None then
        (Inl (HTTPException 400 ''Debe proporcionar texto o archivo de audio''), w)
      else
        (case enqueue_job env uuid (submit_job_data text audio_file) w of
           (job_id, w') \<Rightarrow>
             (Inr \<lparr>jr_job_id = job_id, jr_status = PENDING,
                   jr_message = ''Trabajo encolado exitosamente. Use /result/{job_id} para consultar el resultado.''\<rparr>,
              w')))"

text \<open>An optional time stamp of the job data, parsed as pydantic does for the response.\<close>

definition datetime_field :: "env \<Rightarrow> (string \<times> pyval) list \<Rightarrow> string \<Rightarrow> exc + nat option" where
  "datetime_field env job_data k =
     (case map_of job_data k of
        Some (PStr s) \<Rightarrow> (case parse_datetime env s of Inl e \<Rightarrow> Inl e | Inr t \<Rightarrow> Inr (Some t))
      | _ \<Rightarrow> Inr None)"

definition string_field :: "(string \<times> pyval) list \<Rightarrow> string \<Rightarrow> string option" where
  "string_field job_data k = (case map_of job_data k of Some (PStr s) \<Rightarrow> Some s | _ \<Rightarrow> None)"

text \<open>The body of the \<^verbatim>\<open>try\<close> block of \<open>get_result\<close>, once the job data is there.\<close>

definition build_response :: "env \<Rightarrow> string \<Rightarrow> (string \<times> pyval) list \<Rightarrow> exc + result_response" where
  "build_response env job_id job_data =
     (case JobStatus (case map_of job_data ''status'' of Some (PStr s) \<Rightarrow> s | _ \<Rightarrow> ''pending'') of
        Inl e \<Rightarrow> Inl e
      | Inr status \<Rightarrow>
          (case datetime_field env job_data ''created_at'' of
             Inl e \<Rightarrow> Inl e
           | Inr created \<Rightarrow>
               (case datetime_field env job_data ''completed_at'' of
                  Inl e \<Rightarrow> Inl e
                | Inr completed \<Rightarrow>
                    let response = \<lparr>rr_job_id = job_id, rr_status = status,
                                    rr_clinical_summary = None,
                                    rr_error = string_field job_data ''error'',
                                    rr_created_at = created, rr_completed_at = completed\<rparr>
                    in (case map_of job_data ''clinical_summary'' of
                          None \<Rightarrow> Inr response
                        | Some v \<Rightarrow>
                            if status = COMPLETED then
                              (case parse_summary env v of
                                 Inl e \<Rightarrow> Inl e
                               | Inr cs \<Rightarrow> Inr (response\<lparr>rr_clinical_summary := Some cs\<rparr>))
                            else Inr response))))"

definition get_result :: "env \<Rightarrow> string \<Rightarrow> redis \<Rightarrow> http_exc + result_response" where
  "get_result env job_id r =
     (case get_job_status env job_id r of
        Inl e \<Rightarrow> Inl (HTTPException 500 (''Error al consultar trabajo: '' @ str_exc e))
      | Inr None \<Rightarrow> Inl (HTTPException 404 (''Trabajo '' @ job_id @ '' no encontrado''))
      | Inr (Some job_data) \<Rightarrow>
          if job_data = [] then Inl (HTTPException 404 (''Trabajo '' @ job_id @ '' no encontrado''))
          else (case build_response env job_id job_data of
                  Inl e \<Rightarrow> Inl (HTTPException 500 (''Error al consultar trabajo: '' @ str_exc e))
                | Inr response \<Rightarrow> Inr response))"

section \<open>\<^verbatim>\<open>app/fhir.py\<close>\<close>

subsection \<open>Strings\<close>

text \<open>
  The numbers in \<^verbatim>\<open>f"condition-{idx + 1}"\<close> are written with \<open>str_nat\<close>.
  \<^verbatim>\<open>str.lower()\<close> on the ASCII letters. A string is its UTF-8 bytes here, so letters beyond
  ASCII, which Python would also fold, stay as they are.
\<close>

definition lower :: "string \<Rightarrow> string" where
  "lower s = map (\<lambda>c. if 65 \<le> (of_char c :: nat) \<and> (of_char c :: nat) \<le> 90
                        then char_of ((of_char c :: nat) + 32) else c) s"

text \<open>\<^verbatim>\<open>sub in s\<close> for strings.\<close>

fun starts_with :: "string \<Rightarrow> string \<Rightarrow> bool" where
  "starts_with [] s = True"
| "starts_with (p # ps) [] = False"
| "starts_with (p # ps) (c # cs) = (p = c \<and> starts_with ps cs)"

fun contains :: "string \<Rightarrow> string \<Rightarrow> bool" where
  "contains sub [] = (sub = [])"
| "contains sub (c # cs) = (starts_with sub (c # cs) \<or> contains sub cs)"

definition age_url :: string where
  "age_url = ''http://example.org/fhir/StructureDefinition/age''"

definition duration_url :: string where
  "duration_url = ''http://example.org/fhir/StructureDefinition/duration''"

definition severity_url :: string where
  "severity_url = ''http://example.org/fhir/StructureDefinition/severity''"

subsection \<open>\<open>clinical_summary_to_fhir\<close>\<close>

definition gender_map :: "(string \<times> string) list" where
  "gender_map = [(''masculino'', ''male''), (''femenino'', ''female''), (''m'', ''male''), (''f'', ''female'')]"

definition age_truthy :: "int option \<Rightarrow> bool" where
  "age_truthy a = (case a of None \<Rightarrow> False | Some n \<Rightarrow> n \<noteq> 0)"

definition patient_subject :: pyval where
  "patient_subject = PDict [(''reference'', PStr ''Patient/patient-1'')]"

text \<open>The patient entry, present when the age or the gender is truthy.\<close>

definition patient_resource :: "clinical_summary \<Rightarrow> pyval" where
  "patient_resource cs =
     (let r0 = [(''resourceType'', PStr ''Patient''), (''id'', PStr ''patient-1'')];
          r1 = (case patient_age cs of
                  None \<Rightarrow> r0
                | Some a \<Rightarrow>
                    if a = 0 then r0
                    else AList.update ''extension''
                           (PList [PDict [(''url'', PStr age_url), (''valueInteger'', PInt a)]]) r0);
          r2 = (case patient_gender cs of
                  None \<Rightarrow> r1
                | Some g \<Rightarrow>
                    if g = [] then r1
                    else AList.update ''gender''
                           (PStr (case map_of gender_map (lower g) of
                                    None \<Rightarrow> lower g
                                  | Some m \<Rightarrow> m)) r1)
      in PDict [(''resource'', PDict r2)])"

definition patient_entries :: "clinical_summary \<Rightarrow> pyval list" where
  "patient_entries cs =
     (if age_truthy (patient_age cs) \<or> str_truthy (patient_gender cs) then [patient_resource cs] else [])"

definition condition_resource :: "nat \<Rightarrow> string \<Rightarrow> pyval" where
  "condition_resource idx condition =
     PDict [(''resource'',
       PDict [(''resourceType'', PStr ''Condition''),
              (''id'', PStr (''condition-'' @ str_nat (idx + 1))),
              (''code'', PDict [(''text'', PStr condition)]),
              (''subject'', patient_subject),
              (''clinicalStatus'',
                 PDict [(''coding'',
                   PList [PDict [(''system'', PStr ''http://terminology.hl7.org/CodeSystem/condition-clinical''),
                                 (''code'', PStr ''active''),
                                 (''display'', PStr ''Active'')]])])])]"

text \<open>\<^verbatim>\<open>resource.get("extension", [])\<close> on a resource under construction.\<close>

definition extension_of :: "(string \<times> pyval) list \<Rightarrow> pyval list" where
  "extension_of r = (case map_of r ''extension'' of Some (PList xs) \<Rightarrow> xs | _ \<Rightarrow> [])"

definition observation_resource :: "nat \<Rightarrow> symptom \<Rightarrow> pyval" where
  "observation_resource idx s =
     (let r0 = [(''resourceType'', PStr ''Observation''),
                (''id'', PStr (''observation-'' @ str_nat (idx + 1))),
                (''status'', PStr ''final''),
                (''code'', PDict [(''text'', PStr (name s))]),
                (''subject'', patient_subject),
                (''valueString'',
                   PStr (case description s of
                           None \<Rightarrow> name s
                         | Some d \<Rightarrow> if d = [] then name s else d))];
          r1 = (case duration s of
                  None \<Rightarrow> r0
                | Some d \<Rightarrow>
                    if d = [] then r0
                    else AList.update ''extension''
                           (PList [PDict [(''url'', PStr duration_url), (''valueString'', PStr d)]]) r0);
          r2 = (case severity s of
                  None \<Rightarrow> r1
                | Some v \<Rightarrow>
                    if v = [] then r1
                    else AList.update ''extension''
                           (PList (extension_of r1 @
                                   [PDict [(''url'', PStr severity_url), (''valueString'', PStr v)]])) r1)
      in PDict [(''resource'', PDict r2)])"

definition clinical_impression :: "clinical_summary \<Rightarrow> pyval" where
  "clinical_impression cs =
     PDict [(''resource'',
       PDict [(''resourceType'', PStr ''ClinicalImpression''),
              (''id'', PStr ''impression-1''),
              (''status'', PStr ''completed''),
              (''subject'', patient_subject),
              (''summary'', PStr (narrative_summary cs)),
              (''finding'',
                 PList (map (\<lambda>idx. PDict [(''itemReference'',
                                PDict [(''reference'',
                                  PStr (''Observation/observation-'' @ str_nat (idx + 1)))])])
                            [0 ..< length (symptoms cs)]))])]"

definition fhir_entries :: "clinical_summary \<Rightarrow> pyval list" where
  "fhir_entries cs =
     patient_entries cs
     @ map (\<lambda>(idx, condition). condition_resource idx condition) (enumerate 0 (relevant_conditions cs))
     @ map (\<lambda>(idx, s). observation_resource idx s) (enumerate 0 (symptoms cs))
     @ [clinical_impression cs]"

definition clinical_summary_to_fhir :: "clinical_summary \<Rightarrow> pyval" where
  "clinical_summary_to_fhir cs =
     PDict [(''resourceType'', PStr ''Bundle''), (''type'', PStr ''collection''),
            (''entry'', PList (fhir_entries cs))]"

subsection \<open>\<open>fhir_to_clinical_summary\<close>\<close>

text \<open>
  The reader works on any dictionary. Its result is an option: \<open>None\<close> stands for every
  bundle on which the Python raises (a \<^verbatim>\<open>.get\<close> on something that is not a dictionary, a
  field that pydantic rejects) or that lies outside the shapes modelled here (iteration over
  something that is not a list, pydantic's coercions). \<open>py_get d k dflt\<close> is
  \<^verbatim>\<open>d.get(k, dflt)\<close>.
\<close>

definition py_get :: "pyval \<Rightarrow> string \<Rightarrow> pyval \<Rightarrow> pyval option" where
  "py_get d k dflt =
     (case d of
        PDict kvs \<Rightarrow> Some (case map_of kvs k of None \<Rightarrow> dflt | Some v \<Rightarrow> v)
      | _ \<Rightarrow> None)"

definition py_iter :: "pyval \<Rightarrow> pyval list option" where
  "py_iter v = (case v of PList xs \<Rightarrow> Some xs | _ \<Rightarrow> None)"

definition as_str :: "pyval \<Rightarrow> string option" where
  "as_str v = (case v of PStr s \<Rightarrow> Some s | _ \<Rightarrow> None)"

definition as_opt_str :: "pyval \<Rightarrow> string option option" where
  "as_opt_str v = (case v of PNone \<Rightarrow> Some None | PStr s \<Rightarrow> Some (Some s) | _ \<Rightarrow> None)"

definition as_opt_int :: "pyval \<Rightarrow> int option option" where
  "as_opt_int v = (case v of PNone \<Rightarrow> Some None | PInt n \<Rightarrow> Some (Some n) | _ \<Rightarrow> None)"

text \<open>\<^verbatim>\<open>entry.get("resource", {})\<close> and its \<^verbatim>\<open>.get("resourceType")\<close>.\<close>

definition entry_resource :: "pyval \<Rightarrow> pyval option" where
  "entry_resource entry = py_get entry ''resource'' (PDict [])"

definition resource_type :: "pyval \<Rightarrow> pyval option" where
  "resource_type resource = py_get resource ''resourceType'' PNone"

text \<open>First loop: the first Patient resource, if any.\<close>

fun find_patient :: "pyval list \<Rightarrow> pyval option option" where
  "find_patient [] = Some None"
| "find_patient (entry # rest) =
     (case entry_resource entry of
        None \<Rightarrow> None
      | Some resource \<Rightarrow>
          (case resource_type resource of
             None \<Rightarrow> None
           | Some t \<Rightarrow> if t = PStr ''Patient'' then Some (Some resource) else find_patient rest))"

text \<open>The age: the \<^verbatim>\<open>valueInteger\<close> of the last extension whose url contains \<^verbatim>\<open>age\<close>.\<close>

fun scan_age :: "pyval list \<Rightarrow> pyval \<Rightarrow> pyval option" where
  "scan_age [] age = Some age"
| "scan_age (ext # rest) age =
     (case py_get ext ''url'' (PStr '''') of
        Some (PStr url) \<Rightarrow>
          if contains ''age'' url then
            (case py_get ext ''valueInteger'' PNone of
               None \<Rightarrow> None
             | Some v \<Rightarrow> scan_age rest v)
          else scan_age rest age
      | _ \<Rightarrow> None)"

definition patient_fields :: "pyval option \<Rightarrow> (pyval \<times> pyval) option" where
  "patient_fields patient =
     (case patient of
        None \<Rightarrow> Some (PNone, PNone)
      | Some p \<Rightarrow>
          if \<not> truthy p then Some (PNone, PNone)
          else
            (case py_get p ''extension'' (PList []) of
               None \<Rightarrow> None
             | Some exts \<Rightarrow>
                 (case py_iter exts of
                    None \<Rightarrow> None
                  | Some xs \<Rightarrow>
                      (case scan_age xs PNone of
                         None \<Rightarrow> None
                       | Some a \<Rightarrow>
                           (case py_get p ''gender'' PNone of
                              None \<Rightarrow> None
                            | Some g \<Rightarrow> Some (a, g))))))"

text \<open>The extensions of an Observation: duration first, else severity, the last one wins.\<close>

fun scan_extensions :: "pyval list \<Rightarrow> pyval \<times> pyval \<Rightarrow> (pyval \<times> pyval) option" where
  "scan_extensions [] ds = Some ds"
| "scan_extensions (ext # rest) (dur, sev) =
     (case py_get ext ''url'' (PStr '''') of
        Some (PStr url) \<Rightarrow>
          (case py_get ext ''valueString'' PNone of
             None \<Rightarrow> None
           | Some v \<Rightarrow>
               if contains ''duration'' url then scan_extensions rest (v, sev)
               else if contains ''severity'' url then scan_extensions rest (dur, v)
               else scan_extensions rest (dur, sev))
      | _ \<Rightarrow> None)"

text \<open>\<^verbatim>\<open>Symptom(name=..., duration=..., severity=..., description=...)\<close>, validated.\<close>

definition make_symptom :: "pyval \<Rightarrow> pyval \<Rightarrow> pyval \<Rightarrow> pyval \<Rightarrow> symptom option" where
  "make_symptom n d s x =
     (case (as_str n, as_opt_str d, as_opt_str s, as_opt_str x) of
        (Some n', Some d', Some s', Some x') \<Rightarrow>
          Some \<lparr>name = n', duration = d', severity = s', description = x'\<rparr>
      | _ \<Rightarrow> None)"

definition observation_symptom :: "pyval \<Rightarrow> symptom option" where
  "observation_symptom resource =
     (case py_get resource ''code'' (PDict []) of
        None \<Rightarrow> None
      | Some code \<Rightarrow>
          (case py_get code ''text'' (PStr '''') of
             None \<Rightarrow> None
           | Some symptom_name \<Rightarrow>
               (case py_get resource ''extension'' (PList []) of
                  None \<Rightarrow> None
                | Some exts \<Rightarrow>
                    (case py_iter exts of
                       None \<Rightarrow> None
                     | Some xs \<Rightarrow>
                         (case scan_extensions xs (PNone, PNone) of
                            None \<Rightarrow> None
                          | Some (d, s) \<Rightarrow>
                              (case py_get resource ''valueString'' PNone of
                                 None \<Rightarrow> None
                               | Some x \<Rightarrow> make_symptom symptom_name d s x))))))"

text \<open>Second loop: one symptom per Observation, in order.\<close>

fun scan_observations :: "pyval list \<Rightarrow> symptom list option" where
  "scan_observations [] = Some []"
| "scan_observations (entry # rest) =
     (case entry_resource entry of
        None \<Rightarrow> None
      | Some resource \<Rightarrow>
          (case resource_type resource of
             None \<Rightarrow> None
           | Some t \<Rightarrow>
               if t = PStr ''Observation'' then
                 (case observation_symptom resource of
                    None \<Rightarrow> None
                  | Some s \<Rightarrow> map_option (\<lambda>ss. s # ss) (scan_observations rest))
               else scan_observations rest))"

text \<open>Third loop: the truthy texts of the Conditions, in order.\<close>

fun scan_conditions :: "pyval list \<Rightarrow> string list option" where
  "scan_conditions [] = Some []"
| "scan_conditions (entry # rest) =
     (case entry_resource entry of
        None \<Rightarrow> None
      | Some resource \<Rightarrow>
          (case resource_type resource of
             None \<Rightarrow> None
           | Some t \<Rightarrow>
               if t = PStr ''Condition'' then
                 (case py_get resource ''code'' (PDict []) of
                    None \<Rightarrow> None
                  | Some code \<Rightarrow>
                      (case py_get code ''text'' (PStr '''') of
                         None \<Rightarrow> None
                       | Some condition_text \<Rightarrow>
                           if truthy condition_text then
                             (case as_str condition_text of
                                None \<Rightarrow> None
                              | Some c \<Rightarrow> map_option (\<lambda>cs. c # cs) (scan_conditions rest))
                           else scan_conditions rest))
               else scan_conditions rest))"

text \<open>Fourth loop: the summary of the first ClinicalImpression, else the empty string.\<close>

fun find_summary :: "pyval list \<Rightarrow> pyval option" where
  "find_summary [] = Some (PStr '''')"
| "find_summary (entry # rest) =
     (case entry_resource entry of
        None \<Rightarrow> None
      | Some resource \<Rightarrow>
          (case resource_type resource of
             None \<Rightarrow> None
           | Some t \<Rightarrow>
               if t = PStr ''ClinicalImpression'' then py_get resource ''summary'' (PStr '''')
               else find_summary rest))"

text \<open>
  \<open>fhir_to_clinical_summary\<close>; \<open>now\<close> is the time that the default of \<^verbatim>\<open>created_at\<close> reads.
\<close>

definition fhir_to_clinical_summary :: "nat \<Rightarrow> pyval \<Rightarrow> clinical_summary option" where
  "fhir_to_clinical_summary now fhir_bundle =
     (case py_get fhir_bundle ''entry'' (PList []) of
        None \<Rightarrow> None
      | Some entry \<Rightarrow>
          (case py_iter entry of
             None \<Rightarrow> None
           | Some entries \<Rightarrow>
               (case find_patient entries of
                  None \<Rightarrow> None
                | Some patient \<Rightarrow>
                    (case patient_fields patient of
                       None \<Rightarrow> None
                     | Some (age, gender) \<Rightarrow>
                         (case scan_observations entries of
                            None \<Rightarrow> None
                          | Some syms \<Rightarrow>
                              (case scan_conditions entries of
                                 None \<Rightarrow> None
                               | Some conds \<Rightarrow>
                                   (case find_summary entries of
                                      None \<Rightarrow> None
                                    | Some summary \<Rightarrow>
                                        (case (as_opt_int age, as_opt_str gender, as_str summary) of
                                           (Some a, Some g, Some n) \<Rightarrow>
                                             Some \<lparr>patient_age = a, patient_gender = g,
                                                   symptoms = syms, risk_factors = [],
                                                   relevant_conditions = conds,
                                                   narrative_summary = n, created_at = now\<rparr>
                                         | _ \<Rightarrow> None))))))))"

section \<open>Concrete collaborators and worlds\<close>

text \<open>
  A world with an empty store at time 0, a summary, and collaborators that answer at once;
  the inference call is given by its outcome. They are the inputs at which the theorems below
  are instantiated. The \<^verbatim>\<open>json.dumps\<close> of \<open>stub_env\<close> accepts every value, also the dumped
  summary with its datetime, which Python's \<^verbatim>\<open>json.dumps\<close> refuses; \<open>py_env\<close>, defined with
  the model of \<^verbatim>\<open>json.dumps\<close> further down, has Python's.
\<close>

definition empty_world :: world where
  "empty_world =
     \<lparr>db = \<lparr>hashes = Map.empty, strs = Map.empty, expires = Map.empty, clock = 0\<rparr>,
      rq_jobs = [], agent_loaded = False, history = []\<rparr>"

definition stub_summary :: clinical_summary where
  "stub_summary =
     \<lparr>patient_age = Some 40, patient_gender = Some ''F'',
      symptoms = [\<lparr>name = ''headache'', duration = Some ''3 days'', severity = Some ''mild'',
                   description = None\<rparr>],
      risk_factors = [''smoker''], relevant_conditions = [''migraine''],
      narrative_summary = ''patient reports headache for 3 days'', created_at = 7\<rparr>"

definition stub_env :: "nat \<times> (exc + clinical_summary) \<Rightarrow> env" where
  "stub_env outcome =
     \<lparr>isoformat = str_nat,
      json_dumps = (\<lambda>v. Inr ''{}''),
      json_loads = (\<lambda>s. Inr (PDict [])),
      format_exc = (\<lambda>e. ''Traceback (most recent call last)''),
      parse_datetime = (\<lambda>s. Inr 0),
      parse_summary = (\<lambda>v. Inr stub_summary),
      load_agent = (0, None),
      transcribe_audio = (\<lambda>a. (0, Inr ''transcript'')),
      process_clinical_text = (\<lambda>t. outcome)\<rparr>"

section \<open>Python's \<^verbatim>\<open>json.dumps\<close>\<close>

text \<open>
  \<^verbatim>\<open>json.dumps\<close> with its defaults, on the values of \<open>pyval\<close>: \<^verbatim>\<open>null\<close>, decimal integers,
  quoted strings, and lists and dictionaries with the separators \<^verbatim>\<open>", "\<close> and \<^verbatim>\<open>": "\<close>. In a
  string the quote and the backslash are escaped, the characters from space to tilde are kept,
  and every other character is written as \<^verbatim>\<open>\uXXXX\<close> (or its short escape), a character
  beyond the basic plane as a surrogate pair. A datetime is not serializable: the call raises
  \<^verbatim>\<open>TypeError\<close>. A string of the model is the UTF-8 encoding of a Python string, so it is
  decoded into code points first.
\<close>

function code_points :: "string \<Rightarrow> nat list" where
  "code_points s =
     (case s of
        [] \<Rightarrow> []
      | c # cs \<Rightarrow>
          let b = (of_char c :: nat);
              n = (if b < 128 then 0 else if b < 224 then 1 else if b < 240 then 2 else 3);
              lead = (if b < 128 then b else if b < 224 then b - 192
                      else if b < 240 then b - 224 else b - 240)
          in foldl (\<lambda>acc x. acc * 64 + ((of_char x :: nat) - 128)) lead (take n cs)
             # code_points (drop n cs))"
  by pat_completeness auto
termination
  by (relation "measure length") auto

definition hex_digit :: "nat \<Rightarrow> char" where
  "hex_digit d = (if d < 10 then char_of (48 + d) else char_of (87 + d))"

definition u_escape :: "nat \<Rightarrow> string" where
  "u_escape n =
     [CHR 0x5C, CHR ''u'', hex_digit (n div 4096 mod 16), hex_digit (n div 256 mod 16),
      hex_digit (n div 16 mod 16), hex_digit (n mod 16)]"

definition escape_code_point :: "nat \<Rightarrow> string" where
  "escape_code_point cp =
     (if cp = 34 then [CHR 0x5C, CHR 0x22]
      else if cp = 92 then [CHR 0x5C, CHR 0x5C]
      else if cp = 8 then [CHR 0x5C, CHR ''b'']
      else if cp = 12 then [CHR 0x5C, CHR ''f'']
      else if cp = 10 then [CHR 0x5C, CHR ''n'']
      else if cp = 13 then [CHR 0x5C, CHR ''r'']
      else if cp = 9 then [CHR 0x5C, CHR ''t'']
      else if 32 \<le> cp \<and> cp \<le> 126 then [char_of cp]
      else if cp < 65536 then u_escape cp
      else u_escape (55296 + (cp - 65536) div 1024) @ u_escape (56320 + (cp - 65536) mod 1024))"

definition json_string :: "string \<Rightarrow> string" where
  "json_string s = [CHR 0x22] @ concat (map escape_code_point (code_points s)) @ [CHR 0x22]"

fun join_comma :: "string list \<Rightarrow> string" where
  "join_comma [] = []"
| "join_comma [x] = x"
| "join_comma (x # y # ys) = x @ '', '' @ join_comma (y # ys)"

fun json_text :: "pyval \<Rightarrow> string" where
  "json_text PNone = ''null''"
| "json_text (PInt n) = str_int n"
| "json_text (PStr s) = json_string s"
| "json_text (PDatetime t) = []"
| "json_text (PList xs) = ''['' @ join_comma (map json_text xs) @ '']''"
| "json_text (PDict kvs) =
     ''{'' @ join_comma (map (\<lambda>(k, v). json_string k @ '': '' @ json_text v) kvs) @ ''}''"

fun serializable :: "pyval \<Rightarrow> bool" where
  "serializable (PDatetime t) = False"
| "serializable (PList xs) = list_all serializable xs"
| "serializable (PDict kvs) = list_all (\<lambda>(k, v). serializable v) kvs"
| "serializable v = True"

definition py_json_dumps :: "pyval \<Rightarrow> exc + string" where
  "py_json_dumps v =
     (if serializable v then Inr (json_text v)
      else Inl (LibError ''Object of type datetime is not JSON serializable''))"

text \<open>The collaborators of \<open>stub_env\<close> with \<^verbatim>\<open>json.dumps\<close> as Python has it.\<close>

definition py_env :: "nat \<times> (exc + clinical_summary) \<Rightarrow> env" where
  "py_env outcome = (stub_env outcome)\<lparr>json_dumps := py_json_dumps\<rparr>"

section \<open>What a reader finds\<close>

text \<open>The status of the job record as a reader finds it.\<close>

definition status_of :: "redis \<Rightarrow> string \<Rightarrow> string option" where
  "status_of r job_id = map_of (r_hgetall (job_key job_id) r) ''status''"

definition error_of :: "redis \<Rightarrow> string \<Rightarrow> string option" where
  "error_of r job_id = map_of (r_hgetall (job_key job_id) r) ''error''"

definition result_of :: "redis \<Rightarrow> string \<Rightarrow> string option" where
  "result_of r job_id = r_get (result_key job_id) r"

text \<open>A job id with neither an error nor a result stored.\<close>

definition clean :: "redis \<Rightarrow> string \<Rightarrow> bool" where
  "clean r job_id = (error_of r job_id = None \<and> result_of r job_id = None)"

text \<open>
  The record invariant of the data model, on one store. With \<open>at_rest\<close> it is the full
  invariant: a failed job has a non-empty error and no result, a completed job has a result
  and no error, and any other job has neither. Without \<open>at_rest\<close> the error of a failed job
  and the result of a completed job may still be missing.
\<close>

definition record_ok :: "bool \<Rightarrow> redis \<Rightarrow> string \<Rightarrow> bool" where
  "record_ok at_rest r job_id =
     (case status_of r job_id of
        None \<Rightarrow> True
      | Some s \<Rightarrow>
          if s = ''failed'' then
            result_of r job_id = None \<and> error_of r job_id \<noteq> Some []
            \<and> (at_rest \<longrightarrow> error_of r job_id \<noteq> None)
          else if s = ''completed'' then
            error_of r job_id = None \<and> (at_rest \<longrightarrow> result_of r job_id \<noteq> None)
          else error_of r job_id = None \<and> result_of r job_id = None)"

text \<open>Every store that a reader could observe so far.\<close>

definition all_ok :: "world \<Rightarrow> string \<Rightarrow> bool" where
  "all_ok w job_id = (\<forall>r \<in> set (history w). record_ok False r job_id)"

section \<open>What the FHIR round trip returns\<close>

text \<open>
  The summary that comes back from the bundle of a summary, field by field: a falsy age,
  gender, duration or severity comes back as \<^verbatim>\<open>None\<close>, the gender comes back in its FHIR
  form, the description comes back as the \<^verbatim>\<open>valueString\<close>, empty conditions are dropped, and
  the risk factors are gone.
\<close>

definition round_trip_symptom :: "symptom \<Rightarrow> symptom" where
  "round_trip_symptom x =
     \<lparr>name = name x,
      duration = (if str_truthy (duration x) then duration x else None),
      severity = (if str_truthy (severity x) then severity x else None),
      description = Some (case description x of
                            None \<Rightarrow> name x
                          | Some d \<Rightarrow> if d = [] then name x else d)\<rparr>"

definition round_trip_summary :: "nat \<Rightarrow> clinical_summary \<Rightarrow> clinical_summary" where
  "round_trip_summary now cs =
     \<lparr>patient_age = (if age_truthy (patient_age cs) then patient_age cs else None),
      patient_gender =
        (case patient_gender cs of
           None \<Rightarrow> None
         | Some g \<Rightarrow>
             if g = [] then None
             else Some (case map_of gender_map (lower g) of None \<Rightarrow> lower g | Some m \<Rightarrow> m)),
      symptoms = map round_trip_symptom (symptoms cs),
      risk_factors = [],
      relevant_conditions = filter (\<lambda>c. c \<noteq> []) (relevant_conditions cs),
      narrative_summary = narrative_summary cs,
      created_at = now\<rparr>"

text \<open>The extensions that an Observation carries for a symptom.\<close>

definition duration_extension :: "symptom \<Rightarrow> pyval list" where
  "duration_extension x =
     (case duration x of
        None \<Rightarrow> []
      | Some d \<Rightarrow>
          if d = [] then []
          else [PDict [(''url'', PStr duration_url), (''valueString'', PStr d)]])"

definition severity_extension :: "symptom \<Rightarrow> pyval list" where
  "severity_extension x =
     (case severity x of
        None \<Rightarrow> []
      | Some v \<Rightarrow>
          if v = [] then []
          else [PDict [(''url'', PStr severity_url), (''valueString'', PStr v)]])"

section \<open>Facts about the store commands\<close>

lemma keys_distinct [simp]: "job_key a \<noteq> result_key b" "result_key b \<noteq> job_key a"
  by (simp_all add: job_key_def result_key_def)

lemma hours24_pos [simp]: "0 < hours24"
  by (simp add: hours24_def)

lemma commit_simps [simp]:
  "db (commit f w) = f (db w)"
  "history (commit f w) = f (db w) # history w"
  "rq_jobs (commit f w) = rq_jobs w"
  "agent_loaded (commit f w) = agent_loaded w"
  by (simp_all add: commit_def)

lemma tick_simps [simp]:
  "db (tick d w) = (db w)\<lparr>clock := clock (db w) + d\<rparr>"
  "history (tick d w) = history w"
  "rq_jobs (tick d w) = rq_jobs w"
  "agent_loaded (tick d w) = agent_loaded w"
  by (simp_all add: tick_def)

lemmas store_defs =
  r_exists_def r_hgetall_def r_get_def r_expiry_def r_hset_def r_hset_mapping_def r_expire_def
  r_setex_def purge_def hash_at_def str_at_def alive_def Let_def

text \<open>\<open>hset\<close> on a key: the hash is updated, everything else about the store stays.\<close>

lemma hset_mapping_same [simp]:
  "r_exists k (r_hset_mapping k kvs r)"
  "r_hgetall k (r_hset_mapping k kvs r) = AList.updates (map fst kvs) (map snd kvs) (r_hgetall k r)"
  "r_get k (r_hset_mapping k kvs r) = r_get k r"
  "r_expiry k (r_hset_mapping k kvs r) = r_expiry k r"
  by (auto simp: store_defs split: option.splits)

lemma hset_mapping_other [simp]:
  "k' \<noteq> k \<Longrightarrow> r_exists k' (r_hset_mapping k kvs r) = r_exists k' r"
  "k' \<noteq> k \<Longrightarrow> r_hgetall k' (r_hset_mapping k kvs r) = r_hgetall k' r"
  "k' \<noteq> k \<Longrightarrow> r_get k' (r_hset_mapping k kvs r) = r_get k' r"
  "k' \<noteq> k \<Longrightarrow> r_expiry k' (r_hset_mapping k kvs r) = r_expiry k' r"
  by (auto simp: store_defs split: option.splits)

lemma hset_mapping_clock [simp]: "clock (r_hset_mapping k kvs r) = clock r"
  by (simp add: store_defs)

lemma hset_same [simp]:
  "r_exists k (r_hset k f v r)"
  "r_hgetall k (r_hset k f v r) = AList.update f v (r_hgetall k r)"
  "r_get k (r_hset k f v r) = r_get k r"
  "r_expiry k (r_hset k f v r) = r_expiry k r"
  by (simp_all add: r_hset_def)

lemma hset_other [simp]:
  "k' \<noteq> k \<Longrightarrow> r_exists k' (r_hset k f v r) = r_exists k' r"
  "k' \<noteq> k \<Longrightarrow> r_hgetall k' (r_hset k f v r) = r_hgetall k' r"
  "k' \<noteq> k \<Longrightarrow> r_get k' (r_hset k f v r) = r_get k' r"
  "k' \<noteq> k \<Longrightarrow> r_expiry k' (r_hset k f v r) = r_expiry k' r"
  by (simp_all add: r_hset_def)

lemma hset_clock [simp]: "clock (r_hset k f v r) = clock r"
  by (simp add: r_hset_def)

text \<open>\<open>setex\<close> with a positive time to live.\<close>

lemma setex_same [simp]:
  "0 < ttl \<Longrightarrow> r_exists k (r_setex k ttl v r)"
  "0 < ttl \<Longrightarrow> r_get k (r_setex k ttl v r) = Some v"
  "0 < ttl \<Longrightarrow> r_expiry k (r_setex k ttl v r) = Some (clock r + ttl)"
  by (auto simp: store_defs split: option.splits)

lemma setex_other [simp]:
  "k' \<noteq> k \<Longrightarrow> r_exists k' (r_setex k ttl v r) = r_exists k' r"
  "k' \<noteq> k \<Longrightarrow> r_hgetall k' (r_setex k ttl v r) = r_hgetall k' r"
  "k' \<noteq> k \<Longrightarrow> r_get k' (r_setex k ttl v r) = r_get k' r"
  "k' \<noteq> k \<Longrightarrow> r_expiry k' (r_setex k ttl v r) = r_expiry k' r"
  by (auto simp: store_defs split: option.splits)

lemma setex_clock [simp]: "clock (r_setex k ttl v r) = clock r"
  by (simp add: store_defs)

text \<open>\<open>expire\<close> with a positive time to live.\<close>

lemma expire_same [simp]:
  "0 < ttl \<Longrightarrow> r_exists k (r_expire k ttl r) = r_exists k r"
  "0 < ttl \<Longrightarrow> r_hgetall k (r_expire k ttl r) = r_hgetall k r"
  "0 < ttl \<Longrightarrow> r_get k (r_expire k ttl r) = r_get k r"
  "0 < ttl \<Longrightarrow> r_expiry k (r_expire k ttl r) = (if r_exists k r then Some (clock r + ttl) else None)"
  by (auto simp: store_defs split: option.splits)

lemma expire_other [simp]:
  "k' \<noteq> k \<Longrightarrow> r_exists k' (r_expire k ttl r) = r_exists k' r"
  "k' \<noteq> k \<Longrightarrow> r_hgetall k' (r_expire k ttl r) = r_hgetall k' r"
  "k' \<noteq> k \<Longrightarrow> r_get k' (r_expire k ttl r) = r_get k' r"
  "k' \<noteq> k \<Longrightarrow> r_expiry k' (r_expire k ttl r) = r_expiry k' r"
  by (auto simp: store_defs split: option.splits)

lemma expire_clock [simp]: "clock (r_expire k ttl r) = clock r"
  by (simp add: store_defs)

text \<open>Time passing can only remove a key.\<close>

lemma clock_advance_get:
  "clock r \<le> c \<Longrightarrow> r_get k r = None \<Longrightarrow> r_get k (r\<lparr>clock := c\<rparr>) = None"
  by (auto simp: store_defs split: option.splits)

lemma clock_advance_hgetall:
  "clock r \<le> c \<Longrightarrow> r_hgetall k (r\<lparr>clock := c\<rparr>) = r_hgetall k r \<or> r_hgetall k (r\<lparr>clock := c\<rparr>) = []"
  by (auto simp: store_defs split: option.splits)

text \<open>The same facts in terms of what a reader finds under a job id.\<close>

lemma status_of_hset [simp]:
  "status_of (r_hset (job_key job_id) f v r) job_id = (if f = ''status'' then Some v else status_of r job_id)"
  by (simp add: status_of_def update_conv')

lemma error_of_hset [simp]:
  "error_of (r_hset (job_key job_id) f v r) job_id = (if f = ''error'' then Some v else error_of r job_id)"
  by (simp add: error_of_def update_conv')

lemma result_of_hset [simp]:
  "result_of (r_hset (job_key job_id) f v r) job_id' = result_of r job_id'"
  by (simp add: result_of_def)

lemma reads_setex [simp]:
  "status_of (r_setex (result_key job_id') ttl v r) job_id = status_of r job_id"
  "error_of (r_setex (result_key job_id') ttl v r) job_id = error_of r job_id"
  "0 < ttl \<Longrightarrow> result_of (r_setex (result_key job_id) ttl v r) job_id = Some v"
  by (simp_all add: status_of_def error_of_def result_of_def)

lemma error_of_clock [simp]:
  "clock r \<le> c \<Longrightarrow> error_of r job_id = None \<Longrightarrow> error_of (r\<lparr>clock := c\<rparr>) job_id = None"
  using clock_advance_hgetall [of r c "job_key job_id"]
  by (auto simp: error_of_def)

lemma result_of_clock [simp]:
  "clock r \<le> c \<Longrightarrow> result_of r job_id = None \<Longrightarrow> result_of (r\<lparr>clock := c\<rparr>) job_id = None"
  by (simp add: result_of_def clock_advance_get)

text \<open>The expiry of a key under each command.\<close>

lemma ttl_hset_mapping [simp]:
  "r_ttl k (r_hset_mapping k kvs r) = (case r_ttl k r of Missing \<Rightarrow> Persistent | t \<Rightarrow> t)"
  "k' \<noteq> k \<Longrightarrow> r_ttl k' (r_hset_mapping k kvs r) = r_ttl k' r"
  by (auto simp: r_ttl_def store_defs split: option.splits)

lemma ttl_hset [simp]:
  "r_ttl k (r_hset k f v r) = (case r_ttl k r of Missing \<Rightarrow> Persistent | t \<Rightarrow> t)"
  "k' \<noteq> k \<Longrightarrow> r_ttl k' (r_hset k f v r) = r_ttl k' r"
  by (simp_all add: r_hset_def)

lemma ttl_setex [simp]:
  "0 < ttl \<Longrightarrow> r_ttl k (r_setex k ttl v r) = ExpiresAt (clock r + ttl)"
  "k' \<noteq> k \<Longrightarrow> r_ttl k' (r_setex k ttl v r) = r_ttl k' r"
  by (auto simp: r_ttl_def store_defs split: option.splits)

lemma ttl_expire [simp]:
  "0 < ttl \<Longrightarrow> r_ttl k (r_expire k ttl r) =
     (case r_ttl k r of Missing \<Rightarrow> Missing | t \<Rightarrow> ExpiresAt (clock r + ttl))"
  "k' \<noteq> k \<Longrightarrow> r_ttl k' (r_expire k ttl r) = r_ttl k' r"
  by (auto simp: r_ttl_def store_defs split: option.splits)

lemma ttl_clock:
  "r_ttl k r = ExpiresAt t \<Longrightarrow> c < t \<Longrightarrow> r_ttl k (r\<lparr>clock := c\<rparr>) = ExpiresAt t"
  by (auto simp: r_ttl_def store_defs split: option.splits if_splits)

lemma ttl_twice [simp]:
  "(case (case x of Missing \<Rightarrow> Persistent | t \<Rightarrow> t) of Missing \<Rightarrow> Persistent | t \<Rightarrow> t)
     = (case x of Missing \<Rightarrow> Persistent | t \<Rightarrow> t)"
  by (cases x) simp_all

section \<open>Facts about \<open>update_job_status\<close>\<close>

lemma update_job_status_status:
  "status_of (db (snd (update_job_status env job_id status result error w))) job_id = Some status"
  by (simp add: update_job_status_def Let_def split: sum.splits option.splits)

lemma update_job_status_outcome:
  "fst (update_job_status env job_id status result error w) =
     (case (if truthy result then json_dumps env result else Inr []) of
        Inl e \<Rightarrow> Inl e
      | Inr js \<Rightarrow> Inr ())"
  by (simp add: update_job_status_def Let_def split: sum.splits option.splits)

text \<open>The four ways through \<open>update_job_status\<close>, each as the writes it makes.\<close>

lemma update_job_status_plain:
  "\<not> truthy result \<Longrightarrow> \<not> str_truthy error \<Longrightarrow>
   update_job_status env job_id status result error w =
     (Inr (), commit (r_hset (job_key job_id) ''status'' status) w)"
  by (simp add: update_job_status_def str_truthy_def split: option.splits)

lemma update_job_status_result:
  "truthy result \<Longrightarrow> json_dumps env result = Inr js \<Longrightarrow> \<not> str_truthy error \<Longrightarrow>
   update_job_status env job_id status result error w =
     (Inr (),
      commit (r_hset (job_key job_id) ''completed_at'' (isoformat env (clock (db w))))
        (commit (r_setex (result_key job_id) hours24 js)
          (commit (r_hset (job_key job_id) ''status'' status) w)))"
  by (simp add: update_job_status_def str_truthy_def Let_def split: option.splits)

lemma update_job_status_dumps_raises:
  "truthy result \<Longrightarrow> json_dumps env result = Inl e \<Longrightarrow>
   update_job_status env job_id status result error w =
     (Inl e, commit (r_hset (job_key job_id) ''status'' status) w)"
  by (simp add: update_job_status_def)

lemma update_job_status_error:
  "\<not> truthy result \<Longrightarrow> msg \<noteq> [] \<Longrightarrow>
   update_job_status env job_id status result (Some msg) w =
     (Inr (),
      commit (r_hset (job_key job_id) ''completed_at'' (isoformat env (clock (db w))))
        (commit (r_hset (job_key job_id) ''error'' msg)
          (commit (r_hset (job_key job_id) ''status'' status) w)))"
  by (simp add: update_job_status_def Let_def)

section \<open>Facts about \<open>enqueue_job\<close>\<close>

text \<open>The six fields that \<open>enqueue_job\<close> writes.\<close>

lemma enqueue_job_unfold:
  "enqueue_job env uuid job_data w =
     (uuid,
      (commit (r_expire (job_key uuid) hours24)
         (commit (r_hset_mapping (job_key uuid)
                    [(''job_id'', uuid), (''status'', ''pending''),
                     (''created_at'', isoformat env (clock (db w))),
                     (''text'', get_or_empty job_data ''text''),
                     (''audio_filename'', get_or_empty job_data ''audio_filename''),
                     (''audio_url'', get_or_empty job_data ''audio_url'')]) w))
      \<lparr>rq_jobs := rq_jobs w @ [(''app.worker.process_clinical_job'', uuid, 300)]\<rparr>)"
  by (simp add: enqueue_job_def Let_def)

lemma empty_world_reads [simp]:
  "r_exists k (db empty_world) = False"
  "r_hgetall k (db empty_world) = []"
  "r_get k (db empty_world) = None"
  "r_expiry k (db empty_world) = None"
  "clock (db empty_world) = 0"
  "history empty_world = []"
  "status_of (db empty_world) job_id = None"
  "error_of (db empty_world) job_id = None"
  "result_of (db empty_world) job_id = None"
  by (simp_all add: empty_world_def store_defs status_of_def error_of_def result_of_def)

lemma stub_env_simps [simp]:
  "isoformat (stub_env outcome) = str_nat"
  "json_dumps (stub_env outcome) = (\<lambda>v. Inr ''{}'')"
  "json_loads (stub_env outcome) = (\<lambda>s. Inr (PDict []))"
  "format_exc (stub_env outcome) = (\<lambda>e. ''Traceback (most recent call last)'')"
  "parse_datetime (stub_env outcome) = (\<lambda>s. Inr 0)"
  "parse_summary (stub_env outcome) = (\<lambda>v. Inr stub_summary)"
  "load_agent (stub_env outcome) = (0, None)"
  "transcribe_audio (stub_env outcome) = (\<lambda>a. (0, Inr ''transcript''))"
  "process_clinical_text (stub_env outcome) = (\<lambda>t. outcome)"
  by (simp_all add: stub_env_def)

lemma truthy_model_dump [simp]: "truthy (model_dump cs)"
  by (simp add: model_dump_def)

lemma map_of_PStr_fields:
  "map_of (map (\<lambda>(f, v). (f, PStr v)) h) k = map_option PStr (map_of h k)"
  by (induction h) auto

text \<open>What a reader finds after \<open>enqueue_job\<close>.\<close>

lemma enqueue_job_reads:
  "fst (enqueue_job env uuid job_data w) = uuid"
  "r_exists (job_key uuid) (db (snd (enqueue_job env uuid job_data w)))"
  "status_of (db (snd (enqueue_job env uuid job_data w))) uuid = Some ''pending''"
  "error_of (db (snd (enqueue_job env uuid job_data w))) uuid = error_of (db w) uuid"
  "result_of (db (snd (enqueue_job env uuid job_data w))) job_id = result_of (db w) job_id"
  "r_expiry (job_key uuid) (db (snd (enqueue_job env uuid job_data w))) = Some (clock (db w) + hours24)"
  "clock (db (snd (enqueue_job env uuid job_data w))) = clock (db w)"
  "agent_loaded (snd (enqueue_job env uuid job_data w)) = agent_loaded w"
  by (simp_all add: enqueue_job_unfold status_of_def error_of_def result_of_def update_conv')

lemma enqueue_job_fields:
  "map_of (r_hgetall (job_key uuid) (db (snd (enqueue_job env uuid job_data w)))) ''text''
     = Some (get_or_empty job_data ''text'')"
  "map_of (r_hgetall (job_key uuid) (db (snd (enqueue_job env uuid job_data w)))) ''job_id''
     = Some uuid"
  by (simp_all add: enqueue_job_unfold update_conv')

lemma enqueue_job_queue:
  "rq_jobs (snd (enqueue_job env uuid job_data w))
     = rq_jobs w @ [(''app.worker.process_clinical_job'', uuid, 300)]"
  by (simp add: enqueue_job_unfold)

lemma enqueue_job_ttl:
  "r_ttl (job_key uuid) (db (snd (enqueue_job env uuid job_data w))) = ExpiresAt (clock (db w) + hours24)"
  by (simp add: enqueue_job_unfold split: ttl.splits)

text \<open>The record after \<open>enqueue_job\<close>: the six fields over whatever was there.\<close>

lemma enqueue_job_record:
  "map_of (r_hgetall (job_key uuid) (db (snd (enqueue_job env uuid job_data w)))) =
     (map_of (r_hgetall (job_key uuid) (db w)))
       (''job_id'' \<mapsto> uuid, ''status'' \<mapsto> ''pending'',
        ''created_at'' \<mapsto> isoformat env (clock (db w)),
        ''text'' \<mapsto> get_or_empty job_data ''text'',
        ''audio_filename'' \<mapsto> get_or_empty job_data ''audio_filename'',
        ''audio_url'' \<mapsto> get_or_empty job_data ''audio_url'')"
  by (simp add: enqueue_job_unfold update_conv')

lemma py_env_simps [simp]:
  "isoformat (py_env outcome) = str_nat"
  "json_dumps (py_env outcome) = py_json_dumps"
  "load_agent (py_env outcome) = (0, None)"
  "process_clinical_text (py_env outcome) = (\<lambda>t. outcome)"
  by (simp_all add: py_env_def)

lemma ttl_empty_world [simp]: "r_ttl k (db empty_world) = Missing"
  by (simp add: r_ttl_def)

section \<open>Facts about the worker\<close>

lemma error_message_nonempty [simp]: "error_message env e \<noteq> []"
  by (simp add: error_message_def)

text \<open>The handler: three writes, then the exception again.\<close>

lemma process_clinical_job_handler:
  "process_clinical_job_try env job_id w = (Inl e, w1) \<Longrightarrow>
   process_clinical_job env job_id w =
     (Inl e,
      commit (r_hset (job_key job_id) ''completed_at'' (isoformat env (clock (db w1))))
        (commit (r_hset (job_key job_id) ''error'' (error_message env e))
          (commit (r_hset (job_key job_id) ''status'' ''failed'') w1)))"
  by (simp add: process_clinical_job_def update_job_status_error)

lemma process_clinical_job_returns:
  "process_clinical_job_try env job_id w = (Inr result_dict, w1) \<Longrightarrow>
   process_clinical_job env job_id w = (Inr result_dict, w1)"
  by (simp add: process_clinical_job_def)

lemma get_job_status_absent:
  "\<not> r_exists (job_key job_id) r \<Longrightarrow> get_job_status env job_id r = Inr None"
  by (simp add: get_job_status_def)

lemma get_job_status_not_completed:
  "r_exists (job_key job_id) r \<Longrightarrow> status_of r job_id \<noteq> Some ''completed'' \<Longrightarrow>
   get_job_status env job_id r = Inr (Some (map (\<lambda>(f, v). (f, PStr v)) (r_hgetall (job_key job_id) r)))"
  by (auto simp: get_job_status_def status_of_def map_of_PStr_fields Let_def)

lemma process_clinical_job_try_absent:
  "\<not> r_exists (job_key job_id) (db w) \<Longrightarrow>
   process_clinical_job_try env job_id w =
     (Inl (ValueError (''Trabajo '' @ job_id @ '' no encontrado'')), w)"
  by (simp add: process_clinical_job_try_def get_job_status_absent)

text \<open>The way through the \<^verbatim>\<open>try\<close> block when the job has text and the agent is still to load.\<close>

lemma process_clinical_job_try_text:
  assumes "get_job_status env job_id (db w) = Inr (Some job_data)"
    and "job_data \<noteq> []"
    and "\<not> agent_loaded w"
    and "load_agent env = (d0, None)"
    and "text_field job_data ''text'' = t"
    and "t \<noteq> []"
    and "process_clinical_text env t = (d, out)"
    and "w3 = tick d ((tick d0 (commit (r_hset (job_key job_id) ''status'' ''processing'') w))
                       \<lparr>agent_loaded := True\<rparr>)"
  shows "process_clinical_job_try env job_id w =
           (case out of
              Inl e \<Rightarrow> (Inl e, w3)
            | Inr cs \<Rightarrow>
                (case update_job_status env job_id ''completed'' (model_dump cs) None w3 of
                   (Inl e, w5) \<Rightarrow> (Inl e, w5)
                 | (Inr u, w5) \<Rightarrow> (Inr (model_dump cs), w5)))"
  using assms
  by (simp add: process_clinical_job_try_def initialize_agent_def update_job_status_plain
        str_truthy_def Let_def split: sum.splits)

text \<open>
  What the \<^verbatim>\<open>try\<close> block leaves behind when it starts on a job id with no error and no result
  stored: a fault leaves none either; a normal return leaves the status \<^verbatim>\<open>completed\<close> with
  the result stored.
\<close>

lemma try_outcome:
  assumes "clean (db w) job_id"
    and "process_clinical_job_try env job_id w = (out, w1)"
  shows "case out of
           Inl e \<Rightarrow> clean (db w1) job_id
         | Inr result_dict \<Rightarrow>
             status_of (db w1) job_id = Some ''completed''
             \<and> result_of (db w1) job_id \<noteq> None
             \<and> error_of (db w1) job_id = None"
  using assms
  by (auto simp: process_clinical_job_try_def initialize_agent_def update_job_status_plain
        update_job_status_def str_truthy_def Let_def clean_def
        split: sum.splits option.splits prod.splits if_splits)

text \<open>A job with text whose inference succeeds and whose result can be dumped.\<close>

lemma process_clinical_job_success:
  assumes "get_job_status env job_id (db w) = Inr (Some job_data)"
    and "job_data \<noteq> []"
    and "\<not> agent_loaded w"
    and "load_agent env = (d0, None)"
    and "text_field job_data ''text'' = t"
    and "t \<noteq> []"
    and "process_clinical_text env t = (d, Inr cs)"
    and "json_dumps env (model_dump cs) = Inr js"
    and "w3 = tick d ((tick d0 (commit (r_hset (job_key job_id) ''status'' ''processing'') w))
                       \<lparr>agent_loaded := True\<rparr>)"
  shows "process_clinical_job env job_id w =
           (Inr (model_dump cs),
            commit (r_hset (job_key job_id) ''completed_at'' (isoformat env (clock (db w3))))
              (commit (r_setex (result_key job_id) hours24 js)
                (commit (r_hset (job_key job_id) ''status'' ''completed'') w3)))"
proof -
  have "process_clinical_job_try env job_id w =
          (Inr (model_dump cs),
           commit (r_hset (job_key job_id) ''completed_at'' (isoformat env (clock (db w3))))
             (commit (r_setex (result_key job_id) hours24 js)
               (commit (r_hset (job_key job_id) ''status'' ''completed'') w3)))"
    using process_clinical_job_try_text [OF assms(1-7) assms(9)] assms(8)
    by (simp add: update_job_status_result str_truthy_def)
  then show ?thesis
    by (rule process_clinical_job_returns)
qed

text \<open>The job \<^verbatim>\<open>j1\<close>, submitted with a text to the empty store, as the worker finds it.\<close>

lemma submitted_j1:
  assumes "w0 = snd (enqueue_job env ''j1'' [(''text'', PStr ''headache'')] empty_world)"
  shows "r_hgetall (job_key ''j1'') (db w0) =
           [(''job_id'', ''j1''), (''status'', ''pending''), (''created_at'', isoformat env 0),
            (''text'', ''headache''), (''audio_filename'', ''''), (''audio_url'', '''')]"
    and "r_exists (job_key ''j1'') (db w0)"
    and "\<not> agent_loaded w0"
    and "clock (db w0) = 0"
    and "result_of (db w0) ''j1'' = None"
    and "get_job_status env' ''j1'' (db w0) =
           Inr (Some [(''job_id'', PStr ''j1''), (''status'', PStr ''pending''),
                      (''created_at'', PStr (isoformat env 0)), (''text'', PStr ''headache''),
                      (''audio_filename'', PStr ''''), (''audio_url'', PStr '''')])"
proof -
  show h: "r_hgetall (job_key ''j1'') (db w0) =
           [(''job_id'', ''j1''), (''status'', ''pending''), (''created_at'', isoformat env 0),
            (''text'', ''headache''), (''audio_filename'', ''''), (''audio_url'', '''')]"
    by (simp add: assms enqueue_job_unfold get_or_empty_def)
  show ex: "r_exists (job_key ''j1'') (db w0)"
    by (simp add: assms enqueue_job_reads)
  show "\<not> agent_loaded w0"
    by (simp add: assms enqueue_job_reads empty_world_def)
  show "clock (db w0) = 0"
    by (simp add: assms enqueue_job_reads)
  show "result_of (db w0) ''j1'' = None"
    by (simp add: assms enqueue_job_reads)
  have "status_of (db w0) ''j1'' \<noteq> Some ''completed''"
    by (simp add: status_of_def h)
  from get_job_status_not_completed [OF ex this, of env'] show "get_job_status env' ''j1'' (db w0) =
           Inr (Some [(''job_id'', PStr ''j1''), (''status'', PStr ''pending''),
                      (''created_at'', PStr (isoformat env 0)), (''text'', PStr ''headache''),
                      (''audio_filename'', PStr ''''), (''audio_url'', PStr '''')])"
    by (simp add: h)
qed

text \<open>The same job after a worker with a working agent has processed it.\<close>

lemma processed_j1:
  assumes "env = stub_env (d, Inr stub_summary)"
    and "w0 = snd (enqueue_job env ''j1'' [(''text'', PStr ''headache'')] empty_world)"
    and "w3 = (commit (r_hset (job_key ''j1'') ''status'' ''processing'') w0)
                \<lparr>db := (r_hset (job_key ''j1'') ''status'' ''processing'' (db w0))\<lparr>clock := d\<rparr>,
                  agent_loaded := True\<rparr>"
  shows "process_clinical_job env ''j1'' w0 =
           (Inr (model_dump stub_summary),
            commit (r_hset (job_key ''j1'') ''completed_at'' (str_nat d))
              (commit (r_setex (result_key ''j1'') hours24 ''{}'')
                (commit (r_hset (job_key ''j1'') ''status'' ''completed'') w3)))"
proof -
  have "process_clinical_job env ''j1'' w0 =
           (Inr (model_dump stub_summary),
            commit (r_hset (job_key ''j1'') ''completed_at''
                      (isoformat env (clock (db (tick d ((tick 0 (commit (r_hset (job_key ''j1'') ''status'' ''processing'') w0))
                       \<lparr>agent_loaded := True\<rparr>))))))
              (commit (r_setex (result_key ''j1'') hours24 ''{}'')
                (commit (r_hset (job_key ''j1'') ''status'' ''completed'')
                   (tick d ((tick 0 (commit (r_hset (job_key ''j1'') ''status'' ''processing'') w0))
                       \<lparr>agent_loaded := True\<rparr>)))))"
    by (rule process_clinical_job_success [OF submitted_j1(6) [OF assms(2)] _ submitted_j1(3) [OF assms(2)], where t = "''headache''"])
       (simp_all add: assms(1) text_field_def)
  moreover have "tick d ((tick 0 (commit (r_hset (job_key ''j1'') ''status'' ''processing'') w0))
                       \<lparr>agent_loaded := True\<rparr>) = w3"
    by (simp add: assms(3) tick_def commit_def submitted_j1(4) [OF assms(2)])
  ultimately show ?thesis
    by (simp add: assms(1,3) submitted_j1(4) [OF assms(2)])
qed

section \<open>The record invariant along the life of a job\<close>

lemma all_ok_simps [simp]:
  "all_ok (commit f w) job_id = (record_ok False (f (db w)) job_id \<and> all_ok w job_id)"
  "all_ok (tick d w) job_id = all_ok w job_id"
  "all_ok (w\<lparr>agent_loaded := b\<rparr>) job_id = all_ok w job_id"
  "all_ok (w\<lparr>rq_jobs := q\<rparr>) job_id = all_ok w job_id"
  by (simp_all add: all_ok_def)

lemma try_keeps_record_ok:
  assumes "clean (db w) job_id"
    and "all_ok w job_id"
    and "process_clinical_job_try env job_id w = (out, w1)"
  shows "all_ok w1 job_id"
  using assms
  by (auto simp: process_clinical_job_try_def initialize_agent_def update_job_status_plain
        update_job_status_def str_truthy_def Let_def clean_def record_ok_def
        split: sum.splits option.splits prod.splits if_splits)

text \<open>The whole of \<open>process_clinical_job\<close> on a job id with no error and no result stored.\<close>

lemma process_keeps_record_ok:
  assumes "clean (db w) job_id"
    and "all_ok w job_id"
    and "w2 = snd (process_clinical_job env job_id w)"
  shows "all_ok w2 job_id"
    and "record_ok True (db w2) job_id"
    and "status_of (db w2) job_id = Some ''completed'' \<or> status_of (db w2) job_id = Some ''failed''"
proof -
  obtain out w1 where t: "process_clinical_job_try env job_id w = (out, w1)"
    by (cases "process_clinical_job_try env job_id w")
  note k = try_keeps_record_ok [OF assms(1,2) t]
  note o = try_outcome [OF assms(1) t]
  show "all_ok w2 job_id"
  proof (cases out)
    case (Inl e)
    with o have "clean (db w1) job_id" by simp
    with k show ?thesis
      using process_clinical_job_handler [OF t [unfolded Inl]]
      by (simp add: assms(3) record_ok_def clean_def)
  next
    case (Inr result_dict)
    with k show ?thesis
      using process_clinical_job_returns [OF t [unfolded Inr]] by (simp add: assms(3))
  qed
  show "record_ok True (db w2) job_id"
  proof (cases out)
    case (Inl e)
    with o have "clean (db w1) job_id" by simp
    then show ?thesis
      using process_clinical_job_handler [OF t [unfolded Inl]]
      by (simp add: assms(3) record_ok_def clean_def)
  next
    case (Inr result_dict)
    with o show ?thesis
      using process_clinical_job_returns [OF t [unfolded Inr]]
      by (auto simp: assms(3) record_ok_def)
  qed
  show "status_of (db w2) job_id = Some ''completed'' \<or> status_of (db w2) job_id = Some ''failed''"
  proof (cases out)
    case (Inl e)
    then show ?thesis
      using process_clinical_job_handler [OF t [unfolded Inl]] by (simp add: assms(3))
  next
    case (Inr result_dict)
    with o show ?thesis
      using process_clinical_job_returns [OF t [unfolded Inr]] by (simp add: assms(3))
  qed
qed

text \<open>\<open>enqueue_job\<close> under an id with no record and no result.\<close>

lemma enqueue_keeps_record_ok:
  assumes "\<not> r_exists (job_key job_id) (db w)"
    and "result_of (db w) job_id = None"
    and "all_ok w job_id"
    and "w1 = snd (enqueue_job env job_id job_data w)"
  shows "all_ok w1 job_id"
    and "clean (db w1) job_id"
    and "status_of (db w1) job_id = Some ''pending''"
    and "record_ok True (db w1) job_id"
proof -
  have h: "r_hgetall (job_key job_id) (db w) = []"
    using assms(1) by (auto simp: store_defs split: option.splits)
  have e: "error_of (db w) job_id = None"
    by (simp add: error_of_def h)
  show c: "clean (db w1) job_id"
    by (simp add: assms(2,4) e clean_def enqueue_job_reads)
  show s: "status_of (db w1) job_id = Some ''pending''"
    by (simp add: assms(4) enqueue_job_reads)
  from c s show "record_ok True (db w1) job_id"
    by (simp add: record_ok_def clean_def)
  show "all_ok w1 job_id"
    using assms(2,3)
    by (simp add: assms(4) enqueue_job_unfold record_ok_def status_of_def error_of_def
          result_of_def h)
qed

text \<open>The job \<^verbatim>\<open>j1\<close> after a worker whose inference fails has processed it.\<close>

lemma failed_j1:
  assumes "env = stub_env (d, Inl e)"
    and "w0 = snd (enqueue_job env ''j1'' [(''text'', PStr ''headache'')] empty_world)"
    and "w3 = (commit (r_hset (job_key ''j1'') ''status'' ''processing'') w0)
                \<lparr>db := (r_hset (job_key ''j1'') ''status'' ''processing'' (db w0))\<lparr>clock := d\<rparr>,
                  agent_loaded := True\<rparr>"
  shows "process_clinical_job env ''j1'' w0 =
           (Inl e,
            commit (r_hset (job_key ''j1'') ''completed_at'' (str_nat d))
              (commit (r_hset (job_key ''j1'') ''error'' (error_message env e))
                (commit (r_hset (job_key ''j1'') ''status'' ''failed'') w3)))"
proof -
  have w: "tick d ((tick 0 (commit (r_hset (job_key ''j1'') ''status'' ''processing'') w0))
                       \<lparr>agent_loaded := True\<rparr>) = w3"
    by (simp add: assms(3) tick_def commit_def submitted_j1(4) [OF assms(2)])
  have la: "load_agent env = (0, None)"
    and pc: "process_clinical_text env ''headache'' = (d, Inl e)"
    by (simp_all add: assms(1))
  have tf: "text_field [(''job_id'', PStr ''j1''), (''status'', PStr ''pending''),
                      (''created_at'', PStr (isoformat env 0)), (''text'', PStr ''headache''),
                      (''audio_filename'', PStr ''''), (''audio_url'', PStr '''')] ''text'' = ''headache''"
    by (simp add: text_field_def)
  have "process_clinical_job_try env ''j1'' w0 = (Inl e, w3)"
    using process_clinical_job_try_text
            [OF submitted_j1(6) [OF assms(2)] _ submitted_j1(3) [OF assms(2)] la tf _ pc w [symmetric]]
    by simp
  from process_clinical_job_handler [OF this] show ?thesis
    by (simp add: assms(1,3) submitted_j1(4) [OF assms(2)])
qed

section \<open>Facts about the FHIR mapping\<close>

lemma contains_urls [simp]:
  "contains ''age'' age_url"
  "contains ''duration'' duration_url"
  "\<not> contains ''duration'' severity_url"
  "contains ''severity'' severity_url"
  by (simp_all add: age_url_def duration_url_def severity_url_def)

lemmas fhir_read_defs =
  entry_resource_def resource_type_def py_get_def py_iter_def as_str_def as_opt_str_def
  as_opt_int_def make_symptom_def observation_symptom_def extension_of_def

lemma condition_steps [simp]:
  "find_patient (condition_resource i c # rest) = find_patient rest"
  "scan_observations (condition_resource i c # rest) = scan_observations rest"
  "scan_conditions (condition_resource i c # rest) =
     (if c = [] then scan_conditions rest else map_option (\<lambda>cs. c # cs) (scan_conditions rest))"
  "find_summary (condition_resource i c # rest) = find_summary rest"
  by (simp_all add: condition_resource_def fhir_read_defs)

lemma impression_steps [simp]:
  "find_patient (clinical_impression cs # rest) = find_patient rest"
  "scan_observations (clinical_impression cs # rest) = scan_observations rest"
  "scan_conditions (clinical_impression cs # rest) = scan_conditions rest"
  "find_summary (clinical_impression cs # rest) = Some (PStr (narrative_summary cs))"
  by (simp_all add: clinical_impression_def fhir_read_defs)

text \<open>The Observation of a symptom, written out.\<close>

lemma observation_resource_eq:
  "observation_resource i x =
     PDict [(''resource'',
       PDict ([(''resourceType'', PStr ''Observation''),
               (''id'', PStr (''observation-'' @ str_nat (i + 1))),
               (''status'', PStr ''final''),
               (''code'', PDict [(''text'', PStr (name x))]),
               (''subject'', patient_subject),
               (''valueString'',
                  PStr (case description x of
                          None \<Rightarrow> name x
                        | Some d \<Rightarrow> if d = [] then name x else d))]
              @ (if duration_extension x @ severity_extension x = [] then []
                 else [(''extension'', PList (duration_extension x @ severity_extension x))])))]"
  by (cases "duration x"; cases "severity x")
     (simp_all add: observation_resource_def Let_def extension_of_def duration_extension_def
        severity_extension_def)

lemma scan_extensions_symptom:
  "scan_extensions (duration_extension x @ severity_extension x) (PNone, PNone) =
     Some (opt_str (duration (round_trip_symptom x)), opt_str (severity (round_trip_symptom x)))"
  by (cases "duration x"; cases "severity x")
     (simp_all add: duration_extension_def severity_extension_def round_trip_symptom_def
        str_truthy_def opt_str_def py_get_def)

lemma as_opt_str_simps [simp]:
  "as_opt_str PNone = Some None"
  "as_opt_str (PStr v) = Some (Some v)"
  "as_opt_str (opt_str x) = Some x"
  by (cases x; simp add: as_opt_str_def opt_str_def)+

lemma observation_symptom_plain:
  assumes "map_of r ''code'' = Some (PDict [(''text'', PStr n)])"
    and "map_of r ''valueString'' = Some (PStr v)"
    and "map_of r ''extension'' = None"
  shows "observation_symptom (PDict r) =
           Some \<lparr>name = n, duration = None, severity = None, description = Some v\<rparr>"
  using assms
  by (simp add: observation_symptom_def py_get_def py_iter_def make_symptom_def as_str_def)

lemma observation_symptom_extended:
  assumes "map_of r ''code'' = Some (PDict [(''text'', PStr n)])"
    and "map_of r ''valueString'' = Some (PStr v)"
    and "map_of r ''extension'' = Some (PList xs)"
    and "scan_extensions xs (PNone, PNone) = Some (opt_str d, opt_str s)"
  shows "observation_symptom (PDict r) =
           Some \<lparr>name = n, duration = d, severity = s, description = Some v\<rparr>"
  using assms
  by (simp add: observation_symptom_def py_get_def py_iter_def make_symptom_def as_str_def)

lemma round_trip_symptom_plain:
  "duration_extension x @ severity_extension x = [] \<Longrightarrow>
   round_trip_symptom x =
     \<lparr>name = name x, duration = None, severity = None,
      description = Some (case description x of
                            None \<Rightarrow> name x
                          | Some d \<Rightarrow> if d = [] then name x else d)\<rparr>"
  by (cases "duration x"; cases "severity x")
     (simp_all add: duration_extension_def severity_extension_def round_trip_symptom_def
        str_truthy_def split: if_splits)

lemma round_trip_symptom_fields:
  "round_trip_symptom x =
     \<lparr>name = name x, duration = duration (round_trip_symptom x),
      severity = severity (round_trip_symptom x),
      description = Some (case description x of
                            None \<Rightarrow> name x
                          | Some d \<Rightarrow> if d = [] then name x else d)\<rparr>"
  by (simp add: round_trip_symptom_def)

lemma scan_observations_entry:
  assumes "map_of r ''resourceType'' = Some (PStr ''Observation'')"
    and "observation_symptom (PDict r) = Some s"
  shows "scan_observations (PDict [(''resource'', PDict r)] # rest) =
           map_option (\<lambda>ss. s # ss) (scan_observations rest)"
  using assms by (simp add: entry_resource_def resource_type_def py_get_def)

lemma scan_observations_observation [simp]:
  "scan_observations (observation_resource i x # rest) =
     map_option (\<lambda>ss. round_trip_symptom x # ss) (scan_observations rest)"
proof (cases "duration_extension x @ severity_extension x = []")
  case True
  have eq: "observation_resource i x =
          PDict [(''resource'', PDict [(''resourceType'', PStr ''Observation''),
               (''id'', PStr (''observation-'' @ str_nat (i + 1))),
               (''status'', PStr ''final''),
               (''code'', PDict [(''text'', PStr (name x))]),
               (''subject'', patient_subject),
               (''valueString'',
                  PStr (case description x of
                          None \<Rightarrow> name x
                        | Some d \<Rightarrow> if d = [] then name x else d))])]"
    using True by (simp add: observation_resource_eq)
  have sym: "observation_symptom
          (PDict [(''resourceType'', PStr ''Observation''),
               (''id'', PStr (''observation-'' @ str_nat (i + 1))),
               (''status'', PStr ''final''),
               (''code'', PDict [(''text'', PStr (name x))]),
               (''subject'', patient_subject),
               (''valueString'',
                  PStr (case description x of
                          None \<Rightarrow> name x
                        | Some d \<Rightarrow> if d = [] then name x else d))])
        = Some (round_trip_symptom x)"
    unfolding round_trip_symptom_plain [OF True]
    by (rule observation_symptom_plain) simp_all
  show ?thesis
    unfolding eq by (rule scan_observations_entry [OF _ sym]) simp
next
  case False
  have eq: "observation_resource i x =
          PDict [(''resource'', PDict [(''resourceType'', PStr ''Observation''),
               (''id'', PStr (''observation-'' @ str_nat (i + 1))),
               (''status'', PStr ''final''),
               (''code'', PDict [(''text'', PStr (name x))]),
               (''subject'', patient_subject),
               (''valueString'',
                  PStr (case description x of
                          None \<Rightarrow> name x
                        | Some d \<Rightarrow> if d = [] then name x else d)),
               (''extension'', PList (duration_extension x @ severity_extension x))])]"
    using False by (simp add: observation_resource_eq)
  have sym: "observation_symptom
          (PDict [(''resourceType'', PStr ''Observation''),
               (''id'', PStr (''observation-'' @ str_nat (i + 1))),
               (''status'', PStr ''final''),
               (''code'', PDict [(''text'', PStr (name x))]),
               (''subject'', patient_subject),
               (''valueString'',
                  PStr (case description x of
                          None \<Rightarrow> name x
                        | Some d \<Rightarrow> if d = [] then name x else d)),
               (''extension'', PList (duration_extension x @ severity_extension x))])
        = Some (round_trip_symptom x)"
    by (subst round_trip_symptom_fields,
        rule observation_symptom_extended [OF _ _ _ scan_extensions_symptom])
       simp_all
  show ?thesis
    unfolding eq by (rule scan_observations_entry [OF _ sym]) simp
qed

lemma observation_steps [simp]:
  "find_patient (observation_resource i x # rest) = find_patient rest"
  "scan_conditions (observation_resource i x # rest) = scan_conditions rest"
  "find_summary (observation_resource i x # rest) = find_summary rest"
  by (simp_all add: observation_resource_eq entry_resource_def resource_type_def py_get_def)
text \<open>The Patient entry.\<close>

lemma patient_steps [simp]:
  "scan_observations (patient_resource cs # rest) = scan_observations rest"
  "scan_conditions (patient_resource cs # rest) = scan_conditions rest"
  "find_summary (patient_resource cs # rest) = find_summary rest"
  by (cases "patient_age cs"; cases "patient_gender cs";
      simp add: patient_resource_def Let_def entry_resource_def resource_type_def py_get_def)+

lemma patient_found:
  "(case find_patient (patient_resource cs # rest) of
      None \<Rightarrow> None
    | Some patient \<Rightarrow> patient_fields patient) =
   Some ((case patient_age (round_trip_summary now cs) of None \<Rightarrow> PNone | Some a \<Rightarrow> PInt a),
         opt_str (patient_gender (round_trip_summary now cs)))"
  by (cases "patient_age cs"; cases "patient_gender cs";
      simp add: patient_resource_def Let_def entry_resource_def resource_type_def py_get_def
        py_iter_def patient_fields_def round_trip_summary_def age_truthy_def opt_str_def)

lemma patient_absent:
  "patient_entries cs = [] \<Longrightarrow>
   patient_age (round_trip_summary now cs) = None \<and> patient_gender (round_trip_summary now cs) = None"
  by (auto simp: patient_entries_def round_trip_summary_def str_truthy_def
        split: option.splits if_splits)

text \<open>Each pass over all Condition entries and over all Observation entries.\<close>

lemmas loop_steps =
  find_patient.simps(2) scan_observations.simps(2) scan_conditions.simps(2) find_summary.simps(2)

lemma condition_entries:
  "find_patient (map (\<lambda>(idx, condition). condition_resource idx condition) (enumerate n cs) @ rest)
     = find_patient rest"
  "scan_observations (map (\<lambda>(idx, condition). condition_resource idx condition) (enumerate n cs) @ rest)
     = scan_observations rest"
  "find_summary (map (\<lambda>(idx, condition). condition_resource idx condition) (enumerate n cs) @ rest)
     = find_summary rest"
  "scan_conditions (map (\<lambda>(idx, condition). condition_resource idx condition) (enumerate n cs) @ rest)
     = map_option (\<lambda>found. filter (\<lambda>c. c \<noteq> []) cs @ found) (scan_conditions rest)"
proof (induction cs arbitrary: n)
  case Nil
  {
    case 1 show ?case by simp
  next
    case 2 show ?case by simp
  next
    case 3 show ?case by simp
  next
    case 4 show ?case by (simp add: option.map_ident)
  }
next
  case (Cons c cs)
  {
    case 1 show ?case by (simp add: Cons.IH del: loop_steps)
  next
    case 2 show ?case by (simp add: Cons.IH del: loop_steps)
  next
    case 3 show ?case by (simp add: Cons.IH del: loop_steps)
  next
    case 4 show ?case by (simp add: Cons.IH option.map_comp comp_def del: loop_steps)
  }
qed

lemma observation_entries:
  "find_patient (map (\<lambda>(idx, s). observation_resource idx s) (enumerate n xs) @ rest)
     = find_patient rest"
  "scan_conditions (map (\<lambda>(idx, s). observation_resource idx s) (enumerate n xs) @ rest)
     = scan_conditions rest"
  "find_summary (map (\<lambda>(idx, s). observation_resource idx s) (enumerate n xs) @ rest)
     = find_summary rest"
  "scan_observations (map (\<lambda>(idx, s). observation_resource idx s) (enumerate n xs) @ rest)
     = map_option (\<lambda>found. map round_trip_symptom xs @ found) (scan_observations rest)"
proof (induction xs arbitrary: n)
  case Nil
  {
    case 1 show ?case by simp
  next
    case 2 show ?case by simp
  next
    case 3 show ?case by simp
  next
    case 4 show ?case by (simp add: option.map_ident)
  }
next
  case (Cons x xs)
  {
    case 1 show ?case by (simp add: Cons.IH del: loop_steps)
  next
    case 2 show ?case by (simp add: Cons.IH del: loop_steps)
  next
    case 3 show ?case by (simp add: Cons.IH del: loop_steps)
  next
    case 4 show ?case by (simp add: Cons.IH option.map_comp comp_def del: loop_steps)
  }
qed

text \<open>The round trip, for every summary.\<close>

lemma as_simps [simp]:
  "as_str (PStr s) = Some s"
  "as_opt_int PNone = Some None"
  "as_opt_int (PInt a) = Some (Some a)"
  by (simp_all add: as_str_def as_opt_int_def)

lemma fhir_round_trip:
  "fhir_to_clinical_summary now (clinical_summary_to_fhir cs) = Some (round_trip_summary now cs)"
proof -
  let ?rest = "map (\<lambda>(idx, condition). condition_resource idx condition) (enumerate 0 (relevant_conditions cs))
     @ map (\<lambda>(idx, s). observation_resource idx s) (enumerate 0 (symptoms cs))
     @ [clinical_impression cs]"
  have obs: "scan_observations (fhir_entries cs) = Some (map round_trip_symptom (symptoms cs))"
    by (simp add: fhir_entries_def patient_entries_def condition_entries observation_entries del: loop_steps)
  have con: "scan_conditions (fhir_entries cs) = Some (filter (\<lambda>c. c \<noteq> []) (relevant_conditions cs))"
    by (simp add: fhir_entries_def patient_entries_def condition_entries observation_entries del: loop_steps)
  have sum: "find_summary (fhir_entries cs) = Some (PStr (narrative_summary cs))"
    by (simp add: fhir_entries_def patient_entries_def condition_entries observation_entries del: loop_steps)
  have pat: "(case find_patient (fhir_entries cs) of
                None \<Rightarrow> None
              | Some patient \<Rightarrow> patient_fields patient) =
             Some ((case patient_age (round_trip_summary now cs) of None \<Rightarrow> PNone | Some a \<Rightarrow> PInt a),
                   opt_str (patient_gender (round_trip_summary now cs)))"
  proof (cases "patient_entries cs = []")
    case True
    then have "find_patient (fhir_entries cs) = Some None"
      by (simp add: fhir_entries_def condition_entries observation_entries del: loop_steps)
    with patient_absent [OF True, of now] show ?thesis
      by (simp add: patient_fields_def opt_str_def)
  next
    case False
    then have "fhir_entries cs = patient_resource cs # ?rest"
      by (simp add: fhir_entries_def patient_entries_def split: if_splits)
    then show ?thesis
      by (simp only: patient_found)
  qed
  have fields: "round_trip_summary now cs =
      \<lparr>patient_age = patient_age (round_trip_summary now cs),
       patient_gender = patient_gender (round_trip_summary now cs),
       symptoms = map round_trip_symptom (symptoms cs), risk_factors = [],
       relevant_conditions = filter (\<lambda>c. c \<noteq> []) (relevant_conditions cs),
       narrative_summary = narrative_summary cs, created_at = now\<rparr>"
    by (simp add: round_trip_summary_def)
  show ?thesis
    using pat
    by (subst fields)
       (auto simp: fhir_to_clinical_summary_def clinical_summary_to_fhir_def py_get_def py_iter_def
          obs con sum split: option.splits)
qed

section \<open>C1: the status is written before the result\<close>

text \<open>
  C1 fails on the code. \<open>update_job_status\<close> writes the status first and the result second,
  so a successful job passes through a store in which the status is \<^verbatim>\<open>completed\<close> and no
  result is stored. Here the job \<^verbatim>\<open>j1\<close> is submitted and processed with an inference that takes
  five seconds and succeeds: the third newest store of the log is such a store, and only the
  final one holds the result.
\<close>

theorem completed_visible_before_result:
  "let env = stub_env (5, Inr stub_summary);
       w0 = snd (enqueue_job env ''j1'' [(''text'', PStr ''headache'')] empty_world);
       out = process_clinical_job env ''j1'' w0;
       seen = history (snd out) ! 2
   in fst out = Inr (model_dump stub_summary)
      \<and> status_of seen ''j1'' = Some ''completed''
      \<and> result_of seen ''j1'' = None
      \<and> history (snd out) ! 1 = r_setex (result_key ''j1'') hours24 ''{}'' seen
      \<and> status_of (db (snd out)) ''j1'' = Some ''completed''
      \<and> result_of (db (snd out)) ''j1'' = Some ''{}''"
proof -
  define env where "env = stub_env (5, Inr stub_summary)"
  define w0 where "w0 = snd (enqueue_job env ''j1'' [(''text'', PStr ''headache'')] empty_world)"
  note j1 = submitted_j1 [OF w0_def]
  show ?thesis
    unfolding Let_def env_def [symmetric] w0_def [symmetric]
    by (simp add: processed_j1 [OF env_def w0_def refl] j1(4,5))
qed

section \<open>C2: the status update checks nothing\<close>

text \<open>
  C2, as amended. \<open>update_job_status\<close> has no transition check and no existence check. For
  every world, job id and requested status it writes the requested status into the job record,
  whatever the status was and also when no record was there, and it has no outcome that rejects
  the update: it returns normally, unless \<^verbatim>\<open>json.dumps\<close> raises on a truthy result.
\<close>

theorem update_job_status_unconditional:
  "status_of (db (snd (update_job_status env job_id status result error w))) job_id = Some status
   \<and> fst (update_job_status env job_id status result error w) =
       (case (if truthy result then json_dumps env result else Inr []) of
          Inl e \<Rightarrow> Inl e
        | Inr js \<Rightarrow> Inr ())"
  by (simp add: update_job_status_status update_job_status_outcome)

text \<open>
  Against C2 as stated: a job that has been moved to \<^verbatim>\<open>completed\<close> is moved back to
  \<^verbatim>\<open>pending\<close>, and the call returns normally.
\<close>

theorem update_job_status_backward_counterexample:
  "let env = stub_env (0, Inr stub_summary);
       w0 = snd (enqueue_job env ''j1'' [(''text'', PStr ''headache'')] empty_world);
       w1 = snd (update_job_status env ''j1'' ''processing'' PNone None w0);
       w2 = snd (update_job_status env ''j1'' ''completed'' (model_dump stub_summary) None w1);
       back = update_job_status env ''j1'' ''pending'' PNone None w2
   in status_of (db w2) ''j1'' = Some ''completed''
      \<and> fst back = Inr ()
      \<and> status_of (db (snd back)) ''j1'' = Some ''pending''"
  by (simp add: Let_def update_job_status_status update_job_status_outcome)

section \<open>C3: what a submission must carry\<close>

text \<open>
  C3, as amended. A submission is rejected exactly when it has neither a non-empty text nor an
  audio file: the answer is the HTTP error 400 and the world is unchanged, so no id is issued
  and no record is created. Every other submission is accepted, also one with both a text and
  an audio file: the answer carries the id with status \<^verbatim>\<open>PENDING\<close>, the record is there as
  pending, and the task is enqueued.
\<close>

theorem submit_job_needs_at_least_one:
  "(\<not> str_truthy text \<and> audio_file = None \<longrightarrow>
      submit_job env uuid text audio_file w
        = (Inl (HTTPException 400 ''Debe proporcionar texto o archivo de audio''), w))
   \<and> (str_truthy text \<or> audio_file \<noteq> None \<longrightarrow>
        (\<exists>message. fst (submit_job env uuid text audio_file w)
                      = Inr \<lparr>jr_job_id = uuid, jr_status = PENDING, jr_message = message\<rparr>)
        \<and> r_exists (job_key uuid) (db (snd (submit_job env uuid text audio_file w)))
        \<and> status_of (db (snd (submit_job env uuid text audio_file w))) uuid = Some ''pending''
        \<and> rq_jobs (snd (submit_job env uuid text audio_file w))
            = rq_jobs w @ [(''app.worker.process_clinical_job'', uuid, 300)])"
proof -
  have rejected: "submit_job env uuid text audio_file w
        = (Inl (HTTPException 400 ''Debe proporcionar texto o archivo de audio''), w)"
    if "\<not> str_truthy text \<and> audio_file = None"
    using that by (simp add: submit_job_def)
  have accepted: "submit_job env uuid text audio_file w
        = (Inr \<lparr>jr_job_id = uuid, jr_status = PENDING,
                jr_message = ''Trabajo encolado exitosamente. Use /result/{job_id} para consultar el resultado.''\<rparr>,
           snd (enqueue_job env uuid (submit_job_data text audio_file) w))"
    if "str_truthy text \<or> audio_file \<noteq> None"
    using that by (auto simp: submit_job_def enqueue_job_unfold)
  show ?thesis
    using rejected accepted
    by (simp add: enqueue_job_reads enqueue_job_queue)
qed

text \<open>The theorem at an empty submission and at a submission with a text only.\<close>

theorem submit_job_needs_at_least_one_witness:
  "let env = stub_env (0, Inr stub_summary);
       rejected = submit_job env ''j1'' (Some '''') None empty_world;
       accepted = submit_job env ''j1'' (Some ''headache'') None empty_world
   in \<not> str_truthy (Some '''')
      \<and> str_truthy (Some ''headache'')
      \<and> rejected = (Inl (HTTPException 400 ''Debe proporcionar texto o archivo de audio''), empty_world)
      \<and> r_exists (job_key ''j1'') (db (snd accepted))
      \<and> status_of (db (snd accepted)) ''j1'' = Some ''pending''
      \<and> rq_jobs (snd accepted) = [(''app.worker.process_clinical_job'', ''j1'', 300)]"
proof -
  define env where "env = stub_env (0, Inr stub_summary)"
  have a: "\<not> str_truthy (Some '''')" and b: "str_truthy (Some ''headache'')"
    by (simp_all add: str_truthy_def)
  from submit_job_needs_at_least_one [of "Some ''''" None env "''j1''" empty_world]
       submit_job_needs_at_least_one [of "Some ''headache''" None env "''j1''" empty_world]
       a b
  show ?thesis
    unfolding Let_def env_def [symmetric] by (simp add: empty_world_def)
qed

text \<open>
  Against C3 as stated: a submission with both a text and an audio file is accepted, and its
  record is created.
\<close>

theorem submit_job_accepts_both_counterexample:
  "let env = stub_env (0, Inr stub_summary);
       audio = \<lparr>filename = Some ''visit.wav'', content = [82, 73, 70, 70]\<rparr>;
       out = submit_job env ''j1'' (Some ''headache'') (Some audio) empty_world
   in (\<forall>code detail. fst out \<noteq> Inl (HTTPException code detail))
      \<and> (\<exists>response. fst out = Inr response \<and> jr_job_id response = ''j1'')
      \<and> r_exists (job_key ''j1'') (db (snd out))
      \<and> r_hgetall (job_key ''j1'') (db (snd out)) =
           [(''job_id'', ''j1''), (''status'', ''pending''), (''created_at'', str_nat 0),
            (''text'', ''headache''), (''audio_filename'', ''visit.wav''), (''audio_url'', '''')]"
  by (simp add: Let_def submit_job_def str_truthy_def submit_job_data_def enqueue_job_unfold
        get_or_empty_def opt_str_def)

section \<open>C4: a task whose job record is gone\<close>

text \<open>
  C4, as amended. When the job record is not found, \<open>process_clinical_job\<close> does not drop
  the task: the \<^verbatim>\<open>try\<close> block raises \<^verbatim>\<open>ValueError\<close> before any write and before any collaborator
  is called, and the handler then writes a record for that id, holding the status \<^verbatim>\<open>failed\<close>,
  the error and the completion time, with no expiry, and raises the exception again. No other
  key of the store changes, and nothing is enqueued again.
\<close>

theorem missing_job_marked_failed:
  assumes "\<not> r_exists (job_key job_id) (db w)"
    and "out = process_clinical_job env job_id w"
    and "e = ValueError (''Trabajo '' @ job_id @ '' no encontrado'')"
  shows "fst out = Inl e
         \<and> r_hgetall (job_key job_id) (db (snd out)) =
             [(''status'', ''failed''), (''error'', error_message env e),
              (''completed_at'', isoformat env (clock (db w)))]
         \<and> r_expiry (job_key job_id) (db (snd out)) = None
         \<and> (\<forall>k. k \<noteq> job_key job_id \<longrightarrow>
                r_hgetall k (db (snd out)) = r_hgetall k (db w)
                \<and> r_get k (db (snd out)) = r_get k (db w)
                \<and> r_expiry k (db (snd out)) = r_expiry k (db w))
         \<and> rq_jobs (snd out) = rq_jobs w
         \<and> agent_loaded (snd out) = agent_loaded w"
proof -
  have h: "r_hgetall (job_key job_id) (db w) = []"
    using assms(1) by (auto simp: store_defs split: option.splits)
  have x: "r_expiry (job_key job_id) (db w) = None"
    using assms(1) by (simp add: r_expiry_def)
  show ?thesis
    using process_clinical_job_handler [OF process_clinical_job_try_absent [OF assms(1)], of env]
    by (simp add: assms(2,3) h x)
qed

text \<open>The theorem at a task for \<^verbatim>\<open>j9\<close>, which was never submitted, next to the job \<^verbatim>\<open>j1\<close>.\<close>

theorem missing_job_marked_failed_witness:
  "let env = stub_env (0, Inr stub_summary);
       w0 = snd (enqueue_job env ''j1'' [(''text'', PStr ''headache'')] empty_world);
       out = process_clinical_job env ''j9'' w0
   in \<not> r_exists (job_key ''j9'') (db w0)
      \<and> fst out = Inl (ValueError ''Trabajo j9 no encontrado'')
      \<and> status_of (db (snd out)) ''j9'' = Some ''failed''
      \<and> r_expiry (job_key ''j9'') (db (snd out)) = None
      \<and> status_of (db (snd out)) ''j1'' = Some ''pending''"
proof -
  define env where "env = stub_env (0, Inr stub_summary)"
  define w0 where "w0 = snd (enqueue_job env ''j1'' [(''text'', PStr ''headache'')] empty_world)"
  have ne: "job_key ''j9'' \<noteq> job_key ''j1''"
    by (simp add: job_key_def)
  have a: "\<not> r_exists (job_key ''j9'') (db w0)"
    using ne by (simp add: w0_def enqueue_job_unfold)
  have s1: "status_of (db w0) ''j1'' = Some ''pending''"
    by (simp add: w0_def enqueue_job_unfold status_of_def)
  from missing_job_marked_failed [OF a refl refl, of env] a s1 ne show ?thesis
    unfolding Let_def env_def [symmetric] w0_def [symmetric]
    by (simp add: status_of_def)
qed

text \<open>
  Against C4 as stated: on the empty store a task for \<^verbatim>\<open>ghost\<close> leaves a record with status
  \<^verbatim>\<open>failed\<close> where none was, so the store has changed.
\<close>

theorem missing_job_not_dropped_counterexample:
  "let env = stub_env (0, Inr stub_summary);
       out = process_clinical_job env ''ghost'' empty_world
   in \<not> r_exists (job_key ''ghost'') (db empty_world)
      \<and> r_exists (job_key ''ghost'') (db (snd out))
      \<and> status_of (db (snd out)) ''ghost'' = Some ''failed''
      \<and> db (snd out) \<noteq> db empty_world"
proof -
  define env where "env = stub_env (0, Inr stub_summary)"
  define out where "out = process_clinical_job env ''ghost'' empty_world"
  have a: "\<not> r_exists (job_key ''ghost'') (db empty_world)"
    by simp
  have o: "r_exists (job_key ''ghost'') (db (snd out))"
    "status_of (db (snd out)) ''ghost'' = Some ''failed''"
    using process_clinical_job_handler [OF process_clinical_job_try_absent [OF a], of env]
    by (simp_all add: out_def)
  have "db (snd out) \<noteq> db empty_world"
    using o(1) a by auto
  with a o show ?thesis
    unfolding Let_def env_def [symmetric] out_def [symmetric] by simp
qed

section \<open>C5: a fault is stored and raised again\<close>

text \<open>
  C5, as amended. Every fault raised inside the \<^verbatim>\<open>try\<close> block of \<open>process_clinical_job\<close>
  (loading the job, loading the agent, transcription, inference, storing the result) is caught
  by the handler, which writes the status \<^verbatim>\<open>failed\<close> and an error made of the fault's
  description and its traceback into the job record; then the handler raises the same exception
  again, so \<open>process_clinical_job\<close> does not return normally: the fault reaches RQ.
\<close>

theorem fault_recorded_then_reraised:
  assumes "process_clinical_job_try env job_id w = (Inl e, w1)"
  shows "fst (process_clinical_job env job_id w) = Inl e
         \<and> status_of (db (snd (process_clinical_job env job_id w))) job_id = Some ''failed''
         \<and> error_of (db (snd (process_clinical_job env job_id w))) job_id
             = Some (''Error procesando trabajo: '' @ str_exc e @ [CHR 0x0A] @ format_exc env e)"
  using process_clinical_job_handler [OF assms]
  by (simp add: error_message_def)

text \<open>The theorem at a job whose transcript is empty: the second \<^verbatim>\<open>ValueError\<close> of the block.\<close>

theorem fault_recorded_then_reraised_witness:
  "let env = stub_env (0, Inr stub_summary);
       w0 = snd (enqueue_job env ''j2'' [] empty_world);
       out = process_clinical_job env ''j2'' w0
   in fst (process_clinical_job_try env ''j2'' w0) = Inl (ValueError no_text_message)
      \<and> fst out = Inl (ValueError no_text_message)
      \<and> status_of (db (snd out)) ''j2'' = Some ''failed''
      \<and> error_of (db (snd out)) ''j2''
          = Some (''Error procesando trabajo: '' @ no_text_message @ [CHR 0x0A]
                  @ ''Traceback (most recent call last)'')"
proof -
  define env where "env = stub_env (0, Inr stub_summary)"
  define w0 where "w0 = snd (enqueue_job env ''j2'' [] empty_world)"
  have h0: "r_hgetall (job_key ''j2'') (db w0) =
              [(''job_id'', ''j2''), (''status'', ''pending''), (''created_at'', str_nat 0),
               (''text'', ''''), (''audio_filename'', ''''), (''audio_url'', '''')]"
    by (simp add: w0_def env_def enqueue_job_unfold get_or_empty_def)
  have ex: "r_exists (job_key ''j2'') (db w0)"
    by (simp add: w0_def enqueue_job_unfold)
  have ag: "\<not> agent_loaded w0"
    by (simp add: w0_def enqueue_job_unfold empty_world_def)
  have la: "load_agent env = (0, None)"
    and fe: "format_exc env = (\<lambda>e. ''Traceback (most recent call last)'')"
    by (simp_all add: env_def)
  have g: "get_job_status env ''j2'' (db w0) =
             Inr (Some (map (\<lambda>(f, v). (f, PStr v)) (r_hgetall (job_key ''j2'') (db w0))))"
    using ex by (rule get_job_status_not_completed) (simp add: status_of_def h0)
  have "fst (process_clinical_job_try env ''j2'' w0) = Inl (ValueError no_text_message)"
    using ag
    by (simp add: process_clinical_job_try_def g h0 la text_field_def initialize_agent_def
          update_job_status_plain str_truthy_def)
  then obtain w1 where t: "process_clinical_job_try env ''j2'' w0 = (Inl (ValueError no_text_message), w1)"
    by (cases "process_clinical_job_try env ''j2'' w0") auto
  from fault_recorded_then_reraised [OF t] t fe show ?thesis
    unfolding Let_def env_def [symmetric] w0_def [symmetric] by simp
qed

text \<open>
  Against C5 as stated: the inference collaborator fails, and \<open>process_clinical_job\<close> ends
  in that exception rather than returning.
\<close>

theorem fault_not_contained_counterexample:
  "let env = stub_env (5, Inl (LibError ''model unavailable''));
       w0 = snd (enqueue_job env ''j1'' [(''text'', PStr ''headache'')] empty_world);
       out = process_clinical_job env ''j1'' w0
   in fst out = Inl (LibError ''model unavailable'')
      \<and> (\<forall>result_dict. fst out \<noteq> Inr result_dict)
      \<and> status_of (db (snd out)) ''j1'' = Some ''failed''"
proof -
  define env where "env = stub_env (5, Inl (LibError ''model unavailable''))"
  define w0 where "w0 = snd (enqueue_job env ''j1'' [(''text'', PStr ''headache'')] empty_world)"
  have h0: "r_hgetall (job_key ''j1'') (db w0) =
              [(''job_id'', ''j1''), (''status'', ''pending''), (''created_at'', str_nat 0),
               (''text'', ''headache''), (''audio_filename'', ''''), (''audio_url'', '''')]"
    by (simp add: w0_def env_def enqueue_job_unfold get_or_empty_def)
  have ex: "r_exists (job_key ''j1'') (db w0)"
    by (simp add: w0_def enqueue_job_unfold)
  have ag: "\<not> agent_loaded w0"
    by (simp add: w0_def enqueue_job_unfold empty_world_def)
  have g: "get_job_status env ''j1'' (db w0) =
             Inr (Some (map (\<lambda>(f, v). (f, PStr v)) (r_hgetall (job_key ''j1'') (db w0))))"
    using ex by (rule get_job_status_not_completed) (simp add: status_of_def h0)
  have "\<exists>w1. process_clinical_job_try env ''j1'' w0 = (Inl (LibError ''model unavailable''), w1)"
    using process_clinical_job_try_text [OF g _ ag, of 0 "''headache''" 5 "Inl (LibError ''model unavailable'')"]
    by (simp add: h0 text_field_def env_def)
  then obtain w1 where "process_clinical_job_try env ''j1'' w0 = (Inl (LibError ''model unavailable''), w1)"
    by blast
  from process_clinical_job_handler [OF this] show ?thesis
    by (simp add: Let_def env_def w0_def)
qed

section \<open>C6: the expiry of the job record and of the result\<close>

text \<open>
  C6, as amended. No write of \<open>update_job_status\<close> changes the expiry of a job record that
  is there: it keeps the expiry that \<open>enqueue_job\<close> gave it, 24 hours after its creation
  (a write under a job id whose record is missing creates a record that never expires). The
  result does not follow the creation time of the job: when \<open>update_job_status\<close> stores a
  result it gives it an expiry of its own, 24 hours after the time of the write, so the result
  expires later than the job record by the time between the two writes.
\<close>

theorem job_expiry_kept_result_expiry_fresh:
  "r_ttl (job_key job_id) (db (snd (update_job_status env job_id status result error w)))
     = (case r_ttl (job_key job_id) (db w) of Missing \<Rightarrow> Persistent | t \<Rightarrow> t)
   \<and> (storable job_data \<longrightarrow>
        r_ttl (job_key uuid) (db (snd (enqueue_job env uuid job_data w')))
          = ExpiresAt (clock (db w') + 86400))
   \<and> (truthy result \<and> json_dumps env result = Inr js \<longrightarrow>
        r_ttl (result_key job_id) (db (snd (update_job_status env job_id status result error w)))
          = ExpiresAt (clock (db w) + 86400))"
proof -
  have a: "r_ttl (job_key job_id) (db (snd (update_job_status env job_id status result error w)))
             = (case r_ttl (job_key job_id) (db w) of Missing \<Rightarrow> Persistent | t \<Rightarrow> t)"
    by (simp add: update_job_status_def Let_def split: sum.splits option.splits)
  have b: "r_ttl (job_key uuid) (db (snd (enqueue_job env uuid job_data w')))
             = ExpiresAt (clock (db w') + 86400)"
    by (simp add: enqueue_job_ttl hours24_def)
  have c: "r_ttl (result_key job_id) (db (snd (update_job_status env job_id status result error w)))
             = ExpiresAt (clock (db w) + 86400)"
    if "truthy result" "json_dumps env result = Inr js"
    using that by (simp add: update_job_status_def Let_def hours24_def [symmetric] split: option.splits)
  from a b c show ?thesis
    by blast
qed

text \<open>
  The theorem at the job \<^verbatim>\<open>j1\<close>, created at time 0, and a result that \<^verbatim>\<open>json.dumps\<close>
  accepts, stored for it forty seconds later.
\<close>

theorem job_expiry_kept_result_expiry_fresh_witness:
  "let env = py_env (0, Inr stub_summary);
       w0 = snd (enqueue_job env ''j1'' [(''text'', PStr ''headache'')] empty_world);
       result = PDict [(''note'', PStr ''ok'')];
       w1 = snd (update_job_status env ''j1'' ''completed'' result None (tick 40 w0))
   in storable [(''text'', PStr ''headache'')]
      \<and> truthy result
      \<and> json_dumps env result
           = Inr (''{'' @ [CHR 0x22] @ ''note'' @ [CHR 0x22] @ '': '' @ [CHR 0x22] @ ''ok'' @ [CHR 0x22] @ ''}'')
      \<and> r_ttl (job_key ''j1'') (db w0) = ExpiresAt 86400
      \<and> r_ttl (job_key ''j1'') (db w1) = ExpiresAt 86400
      \<and> r_ttl (result_key ''j1'') (db w1) = ExpiresAt 86440"
proof -
  define env where "env = py_env (0, Inr stub_summary)"
  define w0 where "w0 = snd (enqueue_job env ''j1'' [(''text'', PStr ''headache'')] empty_world)"
  define result where "result = PDict [(''note'', PStr ''ok'')]"
  define js where "js = ''{'' @ [CHR 0x22] @ ''note'' @ [CHR 0x22] @ '': '' @ [CHR 0x22] @ ''ok'' @ [CHR 0x22] @ ''}''"
  have s: "storable [(''text'', PStr ''headache'')]"
    by (simp add: storable_def storable_field_def)
  have t: "truthy result"
    by (simp add: result_def)
  have d: "json_dumps env result = Inr js"
    unfolding env_def result_def js_def py_env_simps by code_simp
  have x0: "r_ttl (job_key ''j1'') (db w0) = ExpiresAt 86400"
    by (simp add: w0_def enqueue_job_ttl hours24_def)
  have c: "clock (db w0) = 0"
    by (simp add: w0_def enqueue_job_reads)
  have x1: "r_ttl (job_key ''j1'') (db (tick 40 w0)) = ExpiresAt 86400"
    using ttl_clock [OF x0, of 40] by (simp add: c)
  from job_expiry_kept_result_expiry_fresh
         [of "''j1''" env "''completed''" result None "tick 40 w0"
             "[(''text'', PStr ''headache'')]" "''j1''" empty_world js]
       s t d x0 x1 c
  show ?thesis
    unfolding Let_def env_def [symmetric] w0_def [symmetric] result_def [symmetric]
      js_def [symmetric]
    by simp
qed

text \<open>
  Against C6 as stated: the job \<^verbatim>\<open>j1\<close> is created at time 0 and a result is stored for it
  100 seconds later. The job record expires at 86400, the result at 86500: for 100 seconds the
  result is readable while the job record is gone.
\<close>

theorem result_expires_later_counterexample:
  "let env = py_env (0, Inr stub_summary);
       w0 = snd (enqueue_job env ''j1'' [(''text'', PStr ''headache'')] empty_world);
       out = update_job_status env ''j1'' ''completed'' (PDict [(''note'', PStr ''ok'')]) None
               (tick 100 w0)
   in fst out = Inr ()
      \<and> r_ttl (job_key ''j1'') (db (snd out)) = ExpiresAt 86400
      \<and> r_ttl (result_key ''j1'') (db (snd out)) = ExpiresAt 86500"
proof -
  define env where "env = py_env (0, Inr stub_summary)"
  define w0 where "w0 = snd (enqueue_job env ''j1'' [(''text'', PStr ''headache'')] empty_world)"
  have d: "json_dumps env (PDict [(''note'', PStr ''ok'')]) = Inr (json_text (PDict [(''note'', PStr ''ok'')]))"
    by (simp add: env_def py_json_dumps_def)
  have x0: "r_ttl (job_key ''j1'') (db w0) = ExpiresAt 86400"
    by (simp add: w0_def enqueue_job_ttl hours24_def)
  have x1: "r_ttl (job_key ''j1'') ((db w0)\<lparr>clock := 100\<rparr>) = ExpiresAt 86400"
    using ttl_clock [OF x0, of 100] by simp
  have c: "clock (db w0) = 0"
    by (simp add: w0_def enqueue_job_reads)
  show ?thesis
    unfolding Let_def env_def [symmetric] w0_def [symmetric]
    by (simp add: update_job_status_result [OF _ d] str_truthy_def c x1 hours24_def)
qed

section \<open>C7: creation does not look for the id\<close>

text \<open>
  C7, as amended. \<open>enqueue_job\<close> makes no existence check and no retry, and it has no
  outcome other than the id. For every store, with or without a record under the drawn id, and
  every job data whose three fields can be stored, it writes the six fields \<^verbatim>\<open>job_id\<close>,
  \<^verbatim>\<open>status\<close> (pending), \<^verbatim>\<open>created_at\<close>, \<^verbatim>\<open>text\<close>, \<^verbatim>\<open>audio_filename\<close> and \<^verbatim>\<open>audio_url\<close> under that
  id, over the values that a record already there had for them and next to its other fields,
  which stay; it sets the expiry of the record to 24 hours from now, enqueues the task and
  returns the id.
\<close>

theorem enqueue_job_writes_six_fields_unchecked:
  assumes "storable job_data"
    and "out = enqueue_job env uuid job_data w"
  shows "fst out = uuid
         \<and> map_of (r_hgetall (job_key uuid) (db (snd out))) =
             (map_of (r_hgetall (job_key uuid) (db w)))
               (''job_id'' \<mapsto> uuid, ''status'' \<mapsto> ''pending'',
                ''created_at'' \<mapsto> isoformat env (clock (db w)),
                ''text'' \<mapsto> get_or_empty job_data ''text'',
                ''audio_filename'' \<mapsto> get_or_empty job_data ''audio_filename'',
                ''audio_url'' \<mapsto> get_or_empty job_data ''audio_url'')
         \<and> r_ttl (job_key uuid) (db (snd out)) = ExpiresAt (clock (db w) + 86400)
         \<and> rq_jobs (snd out) = rq_jobs w @ [(''app.worker.process_clinical_job'', uuid, 300)]"
  unfolding assms(2)
  by (simp add: enqueue_job_reads(1) enqueue_job_record enqueue_job_ttl enqueue_job_queue
        hours24_def)

text \<open>The theorem at a submission with an audio file only, under the id \<^verbatim>\<open>j2\<close>.\<close>

theorem enqueue_job_writes_six_fields_unchecked_witness:
  "let env = py_env (0, Inr stub_summary);
       job_data = [(''audio_filename'', PStr ''visit.wav''), (''audio_size'', PInt 4)];
       out = enqueue_job env ''j2'' job_data empty_world
   in storable job_data
      \<and> fst out = ''j2''
      \<and> map_of (r_hgetall (job_key ''j2'') (db (snd out))) =
            [''job_id'' \<mapsto> ''j2'', ''status'' \<mapsto> ''pending'', ''created_at'' \<mapsto> isoformat env 0,
             ''text'' \<mapsto> '''', ''audio_filename'' \<mapsto> ''visit.wav'', ''audio_url'' \<mapsto> '''']
      \<and> r_ttl (job_key ''j2'') (db (snd out)) = ExpiresAt 86400
      \<and> rq_jobs (snd out) = [(''app.worker.process_clinical_job'', ''j2'', 300)]"
proof -
  define env where "env = py_env (0, Inr stub_summary)"
  define job_data where "job_data = [(''audio_filename'', PStr ''visit.wav''), (''audio_size'', PInt 4)]"
  have s: "storable job_data"
    by (simp add: job_data_def storable_def storable_field_def)
  have q: "rq_jobs empty_world = []"
    by (simp add: empty_world_def)
  have i: "isoformat env = str_nat"
    by (simp add: env_def)
  have g: "get_or_empty job_data ''text'' = ''''"
    "get_or_empty job_data ''audio_filename'' = ''visit.wav''"
    "get_or_empty job_data ''audio_url'' = ''''"
    by (simp_all add: job_data_def get_or_empty_def)
  from enqueue_job_writes_six_fields_unchecked [OF s refl, of env "''j2''" empty_world] s
  show ?thesis
    unfolding Let_def env_def [symmetric] job_data_def [symmetric]
    by (simp add: g q i)
qed

text \<open>
  Against C7 as stated: a second submission draws the id \<^verbatim>\<open>j1\<close> of a job that is there.
  The call returns the id, the record now holds the text of the second submission, and two
  tasks for \<^verbatim>\<open>j1\<close> are in the queue.
\<close>

theorem duplicate_id_replaces_record_counterexample:
  "let env = py_env (0, Inr stub_summary);
       w0 = snd (enqueue_job env ''j1'' [(''text'', PStr ''headache'')] empty_world);
       again = enqueue_job env ''j1'' [(''text'', PStr ''cough'')] w0
   in r_exists (job_key ''j1'') (db w0)
      \<and> map_of (r_hgetall (job_key ''j1'') (db w0)) ''text'' = Some ''headache''
      \<and> fst again = ''j1''
      \<and> map_of (r_hgetall (job_key ''j1'') (db (snd again))) ''text'' = Some ''cough''
      \<and> rq_jobs (snd again) =
           [(''app.worker.process_clinical_job'', ''j1'', 300),
            (''app.worker.process_clinical_job'', ''j1'', 300)]"
  by (simp add: Let_def enqueue_job_reads enqueue_job_fields enqueue_job_queue get_or_empty_def
        empty_world_def)

section \<open>C8: result and error of a job record\<close>

text \<open>
  C8, as amended. For a job submitted under an id that has no record and no result, and then
  processed once by the worker after any delay: in every store that a reader can observe,
  result and error are mutually exclusive, both are absent unless the status is \<^verbatim>\<open>failed\<close> or
  \<^verbatim>\<open>completed\<close>, a failed record has no result and a completed record has no error. When
  \<open>enqueue_job\<close> has returned the record is pending with neither; when
  \<open>process_clinical_job\<close> has ended the record is completed with a result stored, or failed
  with a non-empty error. The amendment: while an update is under way a failed record may not
  have its error yet.
\<close>

theorem record_invariant_along_lifecycle:
  assumes "\<not> r_exists (job_key job_id) (db w)"
    and "result_of (db w) job_id = None"
    and "\<forall>r \<in> set (history w). record_ok False r job_id"
    and "w1 = snd (enqueue_job env job_id job_data w)"
    and "w2 = snd (process_clinical_job env job_id (tick d w1))"
  shows "status_of (db w1) job_id = Some ''pending''
         \<and> record_ok True (db w1) job_id
         \<and> (status_of (db w2) job_id = Some ''completed'' \<or> status_of (db w2) job_id = Some ''failed'')
         \<and> record_ok True (db w2) job_id
         \<and> (\<forall>r \<in> set (history w2). record_ok False r job_id)"
proof -
  have a: "all_ok w job_id"
    using assms(3) by (simp add: all_ok_def)
  note e = enqueue_keeps_record_ok [OF assms(1,2) a assms(4)]
  have c: "clean (db (tick d w1)) job_id"
    using e(2) by (simp add: clean_def)
  have k: "all_ok (tick d w1) job_id"
    using e(1) by simp
  note p = process_keeps_record_ok [OF c k assms(5)]
  from e p show ?thesis
    by (simp add: all_ok_def)
qed

text \<open>The theorem at the job \<^verbatim>\<open>j1\<close>, processed 60 seconds after its submission.\<close>

theorem record_invariant_along_lifecycle_witness:
  "let env = stub_env (5, Inr stub_summary);
       w1 = snd (enqueue_job env ''j1'' [(''text'', PStr ''headache'')] empty_world);
       w2 = snd (process_clinical_job env ''j1'' (tick 60 w1))
   in \<not> r_exists (job_key ''j1'') (db empty_world)
      \<and> result_of (db empty_world) ''j1'' = None
      \<and> history empty_world = []
      \<and> status_of (db w1) ''j1'' = Some ''pending''
      \<and> record_ok True (db w1) ''j1''
      \<and> (status_of (db w2) ''j1'' = Some ''completed'' \<or> status_of (db w2) ''j1'' = Some ''failed'')
      \<and> record_ok True (db w2) ''j1''
      \<and> list_all (\<lambda>r. record_ok False r ''j1'') (history w2)"
proof -
  have a: "\<not> r_exists (job_key ''j1'') (db empty_world)"
    and b: "result_of (db empty_world) ''j1'' = None"
    and c: "\<forall>r \<in> set (history empty_world). record_ok False r ''j1''"
    by simp_all
  from record_invariant_along_lifecycle [OF a b c refl refl] a b show ?thesis
    unfolding Let_def list_all_iff by simp
qed

text \<open>
  Against C8 as stated: the inference for \<^verbatim>\<open>j1\<close> fails. The handler writes the status
  first, so the third newest store of the log shows a failed job with no error.
\<close>

theorem failed_without_error_counterexample:
  "let env = stub_env (5, Inl (LibError ''model unavailable''));
       w0 = snd (enqueue_job env ''j1'' [(''text'', PStr ''headache'')] empty_world);
       out = process_clinical_job env ''j1'' w0;
       seen = history (snd out) ! 2
   in status_of seen ''j1'' = Some ''failed''
      \<and> error_of seen ''j1'' = None
      \<and> \<not> record_ok True seen ''j1''"
proof -
  define env where "env = stub_env (5, Inl (LibError ''model unavailable''))"
  define w0 where "w0 = snd (enqueue_job env ''j1'' [(''text'', PStr ''headache'')] empty_world)"
  note j1 = submitted_j1 [OF w0_def]
  have e: "error_of (db w0) ''j1'' = None"
    by (simp add: error_of_def j1(1))
  show ?thesis
    unfolding Let_def env_def [symmetric] w0_def [symmetric]
    by (simp add: failed_j1 [OF env_def w0_def refl] j1(4) e record_ok_def)
qed

section \<open>C9: the FHIR round trip\<close>

text \<open>
  C9, as amended. For every summary whose relevant conditions are non-empty strings and whose
  symptoms each have a duration and a severity that is \<^verbatim>\<open>None\<close> or a non-empty string, the
  round trip through \<open>clinical_summary_to_fhir\<close> and \<open>fhir_to_clinical_summary\<close> succeeds
  and preserves the narrative summary, the relevant conditions, and the name, duration and
  severity of each symptom in order; the risk factors that come back are always the empty
  list. The amendment is the condition on duration and severity: an empty string there is
  not written to the bundle and comes back as \<^verbatim>\<open>None\<close>.
\<close>

theorem fhir_round_trip_preserves:
  assumes "\<forall>c \<in> set (relevant_conditions s). c \<noteq> []"
    and "\<forall>x \<in> set (symptoms s). duration x \<noteq> Some [] \<and> severity x \<noteq> Some []"
  shows "\<exists>s'. fhir_to_clinical_summary now (clinical_summary_to_fhir s) = Some s'
           \<and> narrative_summary s' = narrative_summary s
           \<and> relevant_conditions s' = relevant_conditions s
           \<and> map name (symptoms s') = map name (symptoms s)
           \<and> map duration (symptoms s') = map duration (symptoms s)
           \<and> map severity (symptoms s') = map severity (symptoms s)
           \<and> risk_factors s' = []"
proof -
  have c: "filter (\<lambda>c. c \<noteq> []) (relevant_conditions s) = relevant_conditions s"
    using assms(1) by (simp add: filter_id_conv)
  have d: "duration (round_trip_symptom x) = duration x"
    and v: "severity (round_trip_symptom x) = severity x"
    if "x \<in> set (symptoms s)" for x
    using assms(2) that
    by (auto simp: round_trip_symptom_def str_truthy_def split: option.splits)
  have n: "name (round_trip_symptom x) = name x" for x
    by (simp add: round_trip_symptom_def)
  show ?thesis
    unfolding fhir_round_trip
    by (simp add: round_trip_summary_def c comp_def n d v)
qed

text \<open>The theorem at a summary with one symptom, one condition and one risk factor.\<close>

theorem fhir_round_trip_preserves_witness:
  "list_all (\<lambda>c. c \<noteq> []) (relevant_conditions stub_summary)
   \<and> list_all (\<lambda>x. duration x \<noteq> Some [] \<and> severity x \<noteq> Some []) (symptoms stub_summary)
   \<and> (\<exists>s'. fhir_to_clinical_summary 9 (clinical_summary_to_fhir stub_summary) = Some s'
           \<and> narrative_summary s' = ''patient reports headache for 3 days''
           \<and> relevant_conditions s' = [''migraine'']
           \<and> map name (symptoms s') = [''headache'']
           \<and> map duration (symptoms s') = [Some ''3 days'']
           \<and> map severity (symptoms s') = [Some ''mild'']
           \<and> risk_factors s' = []
           \<and> risk_factors stub_summary = [''smoker''])"
proof -
  have a: "\<forall>c \<in> set (relevant_conditions stub_summary). c \<noteq> []"
    and b: "\<forall>x \<in> set (symptoms stub_summary). duration x \<noteq> Some [] \<and> severity x \<noteq> Some []"
    by (simp_all add: stub_summary_def)
  from fhir_round_trip_preserves [OF a b, of 9] a b show ?thesis
    unfolding list_all_iff by (simp add: stub_summary_def)
qed

text \<open>
  Against C9 as stated: a symptom whose duration is the empty string, in a summary whose
  relevant conditions are non-empty. The duration comes back as \<^verbatim>\<open>None\<close>.
\<close>

theorem empty_duration_lost_counterexample:
  "let s = \<lparr>patient_age = None, patient_gender = None,
            symptoms = [\<lparr>name = ''cough'', duration = Some '''', severity = Some ''mild'',
                         description = None\<rparr>],
            risk_factors = [], relevant_conditions = [''asthma''],
            narrative_summary = ''cough'', created_at = 0\<rparr>
   in relevant_conditions s = [''asthma'']
      \<and> map duration (symptoms s) = [Some '''']
      \<and> (\<exists>s'. fhir_to_clinical_summary 0 (clinical_summary_to_fhir s) = Some s'
                \<and> map duration (symptoms s') = [None])"
  by (simp add: Let_def fhir_round_trip round_trip_summary_def round_trip_symptom_def
        str_truthy_def)

section \<open>C10: a completed job whose result is not there\<close>

text \<open>
  C10. When the job record is there with status \<^verbatim>\<open>completed\<close> and no result is stored under the
  job's result key, \<open>get_job_status\<close> returns the fields of the job record with nothing
  attached, and \<open>get_result\<close> answers with status \<^verbatim>\<open>COMPLETED\<close> and no clinical summary:
  neither a 404 nor an error. The record is one the code writes (it has no field named
  \<^verbatim>\<open>clinical_summary\<close>, and its time stamps parse).
\<close>

theorem completed_without_result:
  assumes "r_exists (job_key job_id) r"
    and "status_of r job_id = Some ''completed''"
    and "result_of r job_id = None"
    and "map_of (r_hgetall (job_key job_id) r) ''clinical_summary'' = None"
    and "job_data = map (\<lambda>(f, v). (f, PStr v)) (r_hgetall (job_key job_id) r)"
    and "datetime_field env job_data ''created_at'' = Inr created"
    and "datetime_field env job_data ''completed_at'' = Inr completed"
  shows "get_job_status env job_id r = Inr (Some job_data)
         \<and> map_of job_data ''clinical_summary'' = None
         \<and> get_result env job_id r =
             Inr \<lparr>rr_job_id = job_id, rr_status = COMPLETED, rr_clinical_summary = None,
                   rr_error = error_of r job_id, rr_created_at = created,
                   rr_completed_at = completed\<rparr>"
proof -
  have st: "map_of job_data ''status'' = Some (PStr ''completed'')"
    using assms(2,5) by (simp add: status_of_def map_of_PStr_fields)
  have g: "get_job_status env job_id r = Inr (Some job_data)"
    using assms(1,3,5) st by (simp add: get_job_status_def result_of_def Let_def)
  have nocs: "map_of job_data ''clinical_summary'' = None"
    using assms(4,5) by (simp add: map_of_PStr_fields)
  have nonempty: "job_data \<noteq> []"
    using st by auto
  have err: "string_field job_data ''error'' = error_of r job_id"
    using assms(5) by (simp add: string_field_def error_of_def map_of_PStr_fields split: option.splits)
  have b: "build_response env job_id job_data =
             Inr \<lparr>rr_job_id = job_id, rr_status = COMPLETED, rr_clinical_summary = None,
                   rr_error = error_of r job_id, rr_created_at = created,
                   rr_completed_at = completed\<rparr>"
    using st nocs err assms(6,7) by (simp add: build_response_def JobStatus_def)
  show ?thesis
    using g nocs nonempty b by (simp add: get_result_def)
qed

text \<open>
  The theorem at a store that the worker itself produces: job \<^verbatim>\<open>j1\<close> is submitted and taken,
  and the completing update has made its first write (the status) but not yet its second
  (the result).
\<close>

theorem completed_without_result_witness:
  "let env = stub_env (0, Inr stub_summary);
       w0 = snd (enqueue_job env ''j1'' [(''text'', PStr ''headache'')] empty_world);
       w1 = snd (update_job_status env ''j1'' ''processing'' PNone None w0);
       w2 = snd (update_job_status env ''j1'' ''completed'' (model_dump stub_summary) None w1);
       r = history w2 ! 2
   in r_exists (job_key ''j1'') r
      \<and> status_of r ''j1'' = Some ''completed''
      \<and> result_of r ''j1'' = None
      \<and> get_result env ''j1'' r =
            Inr \<lparr>rr_job_id = ''j1'', rr_status = COMPLETED, rr_clinical_summary = None,
                  rr_error = None, rr_created_at = Some 0, rr_completed_at = None\<rparr>"
proof -
  define env where "env = stub_env (0, Inr stub_summary)"
  define w0 where "w0 = snd (enqueue_job env ''j1'' [(''text'', PStr ''headache'')] empty_world)"
  define w1 where "w1 = snd (update_job_status env ''j1'' ''processing'' PNone None w0)"
  define w2 where "w2 = snd (update_job_status env ''j1'' ''completed'' (model_dump stub_summary) None w1)"
  define r where "r = r_hset (job_key ''j1'') ''status'' ''completed'' (db w1)"
  define job_data where "job_data = map (\<lambda>(f, v). (f, PStr v)) (r_hgetall (job_key ''j1'') r)"
  have hist: "history w2 ! 2 = r"
    by (simp add: w2_def r_def env_def update_job_status_result str_truthy_def)
  have h0: "r_hgetall (job_key ''j1'') (db w0) =
              [(''job_id'', ''j1''), (''status'', ''pending''), (''created_at'', str_nat 0),
               (''text'', ''headache''), (''audio_filename'', ''''), (''audio_url'', '''')]"
    by (simp add: w0_def env_def enqueue_job_unfold get_or_empty_def)
  have g0: "r_get (result_key ''j1'') (db w0) = None"
    by (simp add: w0_def env_def enqueue_job_unfold)
  have h1: "r_hgetall (job_key ''j1'') (db w1) =
              [(''job_id'', ''j1''), (''status'', ''processing''), (''created_at'', str_nat 0),
               (''text'', ''headache''), (''audio_filename'', ''''), (''audio_url'', '''')]"
    by (simp add: w1_def update_job_status_plain str_truthy_def h0)
  have g1: "r_get (result_key ''j1'') (db w1) = None"
    by (simp add: w1_def update_job_status_plain str_truthy_def g0)
  have hr: "r_hgetall (job_key ''j1'') r =
              [(''job_id'', ''j1''), (''status'', ''completed''), (''created_at'', str_nat 0),
               (''text'', ''headache''), (''audio_filename'', ''''), (''audio_url'', '''')]"
    by (simp add: r_def h1)
  have a1: "r_exists (job_key ''j1'') r"
    by (simp add: r_def)
  have a2: "status_of r ''j1'' = Some ''completed''"
    by (simp add: status_of_def hr)
  have a3: "result_of r ''j1'' = None"
    by (simp add: result_of_def r_def g1)
  have a4: "map_of (r_hgetall (job_key ''j1'') r) ''clinical_summary'' = None"
    by (simp add: hr)
  have a6: "datetime_field env job_data ''created_at'' = Inr (Some 0)"
    by (simp add: datetime_field_def job_data_def hr env_def)
  have a7: "datetime_field env job_data ''completed_at'' = Inr None"
    by (simp add: datetime_field_def job_data_def hr)
  have e: "error_of r ''j1'' = None"
    by (simp add: error_of_def hr)
  from completed_without_result [OF a1 a2 a3 a4 job_data_def a6 a7] a1 a2 a3 e hist
  show ?thesis
    by (simp add: Let_def env_def w0_def w1_def w2_def)
qed

end
